theory Spec2Isabelle
  imports Main
begin

section \<open>Constants and types taken from the headers\<close>

text \<open>
  \<^verbatim>\<open>dvbzap.c\<close> includes \<^verbatim>\<open>mumudvb.h\<close>, \<^verbatim>\<open>errors.h\<close>, \<^verbatim>\<open>dvb.h\<close> and others that give the
  macros and enumeration values it uses. Their values are not fixed here: every
  definition below takes them as the parameter \<open>K\<close>.
\<close>

record params =
  MAX_CHANNELS :: nat
  MAX_PIDS :: nat
  MAX_NAME_LEN :: nat
  DEFAULT_PATH_LEN :: nat
  CONFIG_FILE_SEPARATOR :: string
  PIDFILE_PATH :: string
  DEFAULT_TS_BUFFER_SIZE :: int
  DEFAULT_THREAD_BUFFER_SIZE :: int
  ALARM_TIME_TIMEOUT_NO_DIFF :: int
  ERROR_CONF_FILE :: int
  ERROR_CONF :: int
  ERROR_TOO_CHANNELS :: int
  ERROR_CREATE_FILE :: int
  ERROR_TUNE :: int
  ALMOST_READY :: int
  F_USER :: int
  LOGGING_UNDEFINED :: int
  LOGGING_SYSLOG :: int
  LOGGING_FILE :: int

datatype msg_level = MSG_ERROR | MSG_WARN | MSG_INFO | MSG_DEBUG | MSG_FLOOD

datatype psi_filter =
  PSI_TABLES_FILTERING_NONE | PSI_TABLES_FILTERING_PAT_ONLY | PSI_TABLES_FILTERING_PAT_CAT_ONLY

datatype option_status = OPTION_UNDEFINED | OPTION_OFF | OPTION_ON

text \<open>The files \<^verbatim>\<open>main\<close> opens with \<^verbatim>\<open>fopen\<close>.\<close>

datatype file_id =
  Conf_display | Conf_read | Log_file | Streamed_list | Not_streamed_list | Cam_info_file | Pid_file

text \<open>
  What the program does to the outside world, in the order it does it: every call of
  \<^verbatim>\<open>log_message\<close> (level and format text, without the trailing newline and the
  arguments) and every call into a collaborator that the source files here do not hold.
\<close>

datatype event =
    Log msg_level string
  | Set_interrupted int
  | Install_handler int
  | Restore_ignore int
  | Alarm int
  | Fopen file_id bool
  | Fclose file_id
  | Expand_template string
  | Print_info
  | List_dvb_cards
  | Daemonize
  | Openlog
  | Free_conf_filename
  | Open_fe bool
  | Write_pid
  | Tune_it
  | Close_card_fd
  | Mumudvb_close

text \<open>
  How a run ends: \<^verbatim>\<open>exit(n)\<close>, \<^verbatim>\<open>return n\<close> from \<^verbatim>\<open>main\<close>, the return of
  \<^verbatim>\<open>mumudvb_close\<close>'s value, or a null pointer handed to the C library.
\<close>

datatype outcome = Exited int | Returned int | Returned_close | Crashed

datatype 's run = Halt outcome 's | Cont 's

section \<open>The C library functions the parser relies on\<close>

text \<open>
  \<^verbatim>\<open>strtok\<close>: the first argument of the model is the delimiter set, the second the text
  the scan starts from (the string given, or the saved position when the C call passes
  \<^verbatim>\<open>NULL\<close>). The result is the token, if any, and the new saved position.
\<close>

definition strtok :: "string \<Rightarrow> string \<Rightarrow> string option \<times> string" where
  "strtok delims s =
     (let s1 = dropWhile (\<lambda>c. c \<in> set delims) s in
      if s1 = [] then (None, [])
      else (Some (takeWhile (\<lambda>c. c \<notin> set delims) s1),
            drop 1 (dropWhile (\<lambda>c. c \<notin> set delims) s1)))"

text \<open>
  \<^verbatim>\<open>strtok\<close> writes a NUL over the delimiter that ends the token, so the buffer it
  scanned reads afterwards, as a C string, as its leading delimiters and the token.
\<close>

definition buf_after_strtok :: "string \<Rightarrow> string \<Rightarrow> string" where
  "buf_after_strtok delims s =
     (case fst (strtok delims s) of
        None \<Rightarrow> s
      | Some t \<Rightarrow> takeWhile (\<lambda>c. c \<in> set delims) s @ t)"

definition isspace :: "char \<Rightarrow> bool" where
  "isspace c = (c \<in> {CHR '' '', CHR 0x09, CHR 0x0A, CHR 0x0B, CHR 0x0C, CHR 0x0D})"

definition isdigit :: "char \<Rightarrow> bool" where
  "isdigit c = (c \<in> set ''0123456789'')"

fun digits_value :: "int \<Rightarrow> string \<Rightarrow> int" where
  "digits_value acc [] = acc"
| "digits_value acc (c # cs) =
     (if isdigit c then digits_value (acc * 10 + (int (of_char c) - 48)) cs else acc)"

text \<open>
  The decimal number a string starts with, as the C library reads it: white space, an
  optional sign, then digits up to the first character that is not one.
\<close>

definition decimal_value :: "string \<Rightarrow> int" where
  "decimal_value s =
     (case dropWhile isspace s of
        [] \<Rightarrow> 0
      | c # cs \<Rightarrow>
          if c = CHR ''-'' then - digits_value 0 cs
          else if c = CHR ''+'' then digits_value 0 cs
          else digits_value 0 (c # cs))"

text \<open>
  \<^verbatim>\<open>strtol (s, NULL, 10)\<close>, with the 64 bits that \<^verbatim>\<open>long\<close> has on Linux: a number
  beyond the range of \<^verbatim>\<open>long\<close> gives \<^verbatim>\<open>LONG_MAX\<close> or \<^verbatim>\<open>LONG_MIN\<close>.
\<close>

definition LONG_MAX :: int where "LONG_MAX = 9223372036854775807"
definition LONG_MIN :: int where "LONG_MIN = - 9223372036854775808"

definition strtol :: "string \<Rightarrow> int" where
  "strtol s = max LONG_MIN (min LONG_MAX (decimal_value s))"

text \<open>
  The conversion of a \<^verbatim>\<open>long\<close> to an \<^verbatim>\<open>int\<close>: the low 32 bits, read in two's
  complement.
\<close>

definition int_of_long :: "int \<Rightarrow> int" where
  "int_of_long v = (v + 2147483648) mod 4294967296 - 2147483648"

text \<open>
  \<^verbatim>\<open>atoi\<close> is \<^verbatim>\<open>(int) strtol (s, NULL, 10)\<close> in the C library of the system: the result
  is always an \<^verbatim>\<open>int\<close>, and a number that does not fit one comes back as what its low
  32 bits say (4294967396 as 100, 2147483648 as -2147483648).
\<close>

definition atoi :: "string \<Rightarrow> int" where
  "atoi s = int_of_long (strtol s)"

lemmas atoi_defs =
  atoi_def int_of_long_def strtol_def LONG_MAX_def LONG_MIN_def decimal_value_def
  isspace_def isdigit_def

section \<open>Channels and the state the configuration loop works on\<close>

text \<open>
  The fields of \<^verbatim>\<open>mumudvb_channel_t\<close> that \<^verbatim>\<open>main\<close> assigns. \<^verbatim>\<open>pids\<close> is the array
  \<^verbatim>\<open>pid_i.pids\<close>, read by index; \<^verbatim>\<open>pid_f\<close>, \<^verbatim>\<open>pmt_pid_f\<close> and \<^verbatim>\<open>name_f\<close> are the
  "set by the user" marks.
\<close>

record channel =
  channel_ready :: int
  service_id :: int
  pid_f :: int
  pmt_rewrite :: int
  pids :: "int \<Rightarrow> int"
  num_pids :: int
  pmt_pid :: int
  pmt_pid_f :: int
  name :: string
  name_f :: int
  user_name :: string

text \<open>\<^verbatim>\<open>memset(&chan_p,0,sizeof(chan_p))\<close> leaves every channel record zeroed.\<close>

definition zero_channel :: channel where
  "zero_channel =
     \<lparr>channel_ready = 0, service_id = 0, pid_f = 0, pmt_rewrite = 0, pids = (\<lambda>_. 0),
      num_pids = 0, pmt_pid = 0, pmt_pid_f = 0, name = [], name_f = 0, user_name = []\<rparr>"

text \<open>
  The members of the collaborators' parameter blocks that \<^verbatim>\<open>main\<close> reads or
  assigns: \<^verbatim>\<open>tune_p\<close> (\<^verbatim>\<open>card\<close>, \<^verbatim>\<open>tuning_timeout\<close>, \<^verbatim>\<open>read_file_path\<close>,
  \<^verbatim>\<open>card_tuned\<close>), \<^verbatim>\<open>auto_p\<close> (whether \<^verbatim>\<open>autoconfiguration\<close> differs from
  \<^verbatim>\<open>AUTOCONF_MODE_NONE\<close>), \<^verbatim>\<open>sap_p.sap\<close>, \<^verbatim>\<open>rewrite_vars\<close>, \<^verbatim>\<open>multi_p\<close>, \<^verbatim>\<open>unic_p\<close>
  (\<^verbatim>\<open>unicast\<close>, whether \<^verbatim>\<open>portOut_str\<close> is set), \<^verbatim>\<open>log_params\<close> (whether
  \<^verbatim>\<open>log_file_path\<close> is set, \<^verbatim>\<open>log_type\<close>) and \<^verbatim>\<open>cam_p.cam_support\<close> (false when
  the program is built without CAM support).
\<close>

record blocks =
  card :: int
  tuning_timeout :: int
  read_file_path :: string
  card_tuned :: int
  autoconfiguration_on :: bool
  sap :: option_status
  rewrite_pat :: option_status
  rewrite_sdt :: option_status
  multicast :: int
  ttl :: int
  rtp_header :: int
  unicast :: int
  portOut_str_set :: bool
  log_file_path_set :: bool
  log_type :: int
  cam_support :: bool

text \<open>
  \<^verbatim>\<open>channels\<close> holds the records of \<^verbatim>\<open>chan_p.channels\<close> that have been written, by
  index: its domain is the set of indices \<^verbatim>\<open>main\<close> has stored to, inside the array or
  not. The other fields are the locals of \<^verbatim>\<open>main\<close>, the globals of the file and the
  members of \<^verbatim>\<open>chan_p\<close>, \<^verbatim>\<open>card_buffer\<close> and \<^verbatim>\<open>stats_infos\<close> that \<^verbatim>\<open>main\<close> assigns;
  \<^verbatim>\<open>blk\<close> is the collaborators' blocks and \<^verbatim>\<open>trace\<close> the list of events so far.
\<close>

record pstate =
  ichan :: int
  channels :: "int \<rightharpoonup> channel"
  curr_channel_old :: int
  dvr_buffer_size :: int
  max_thread_buffer_size :: int
  threaded_read :: int
  show_buffer_stats :: int
  timeout_no_diff :: int
  tuning_no_diff :: int
  dont_send_scrambled :: int
  filter_transport_error :: int
  psi_tables_filtering :: psi_filter
  check_cc :: int
  t2mi_pid :: int
  t2mi_plp :: int
  server_id :: int
  filename_pid :: string
  number_of_channels :: int
  write_streamed_channels :: int
  blk :: blocks
  trace :: "event list"

definition chan_get :: "pstate \<Rightarrow> int \<Rightarrow> channel" where
  "chan_get st i = (case channels st i of None \<Rightarrow> zero_channel | Some c \<Rightarrow> c)"

definition chan_upd :: "pstate \<Rightarrow> int \<Rightarrow> (channel \<Rightarrow> channel) \<Rightarrow> pstate" where
  "chan_upd st i f = st\<lparr>channels := (channels st)(i \<mapsto> f (chan_get st i))\<rparr>"

definition add_event :: "event \<Rightarrow> pstate \<Rightarrow> pstate" where
  "add_event e st = st\<lparr>trace := trace st @ [e]\<rparr>"

definition log_message :: "msg_level \<Rightarrow> string \<Rightarrow> pstate \<Rightarrow> pstate" where
  "log_message lvl txt st = add_event (Log lvl txt) st"

section \<open>The configuration loop of \<^verbatim>\<open>main\<close>\<close>

text \<open>
  The end-of-line removal at the top of the loop body: one character, a carriage
  return or a line feed, is cut from the end of the line. \<^verbatim>\<open>fgets\<close> never delivers
  an empty string, so the line has a last character.
\<close>

definition chomp :: "string \<Rightarrow> string" where
  "chomp l = (if l \<noteq> [] \<and> (last l = CHR 0x0D \<or> last l = CHR 0x0A) then butlast l else l)"

text \<open>\<^verbatim>\<open>substring = strtok (NULL, delimiteurs)\<close>: the next token, or \<^verbatim>\<open>NULL\<close>.\<close>

definition next_arg :: "params \<Rightarrow> string \<Rightarrow> string option" where
  "next_arg K cur = fst (strtok (CONFIG_FILE_SEPARATOR K) cur)"

text \<open>
  The options of the form \<^verbatim>\<open>x = atoi (substring)\<close>: \<^verbatim>\<open>atoi\<close> of a null pointer ends
  the process.
\<close>

definition with_int :: "params \<Rightarrow> string \<Rightarrow> pstate \<Rightarrow> (int \<Rightarrow> pstate run) \<Rightarrow> pstate run" where
  "with_int K cur st f = (case next_arg K cur of None \<Rightarrow> Halt Crashed st | Some t \<Rightarrow> f (atoi t))"

lemma strtok_shorter:
  "fst (strtok d s) = Some t \<Longrightarrow> length (snd (strtok d s)) < length s"
proof -
  assume a: "fst (strtok d s) = Some t"
  let ?s1 = "dropWhile (\<lambda>c. c \<in> set d) s"
  let ?r = "dropWhile (\<lambda>c. c \<notin> set d) ?s1"
  from a have ne: "?s1 \<noteq> []"
    by (auto simp: strtok_def Let_def split: if_splits)
  then have sn: "snd (strtok d s) = drop 1 ?r"
    unfolding strtok_def Let_def by (simp only: if_False snd_conv)
  have "length ?r \<le> length ?s1" by (rule length_dropWhile_le)
  moreover have "length ?s1 \<le> length s" by (rule length_dropWhile_le)
  moreover from ne have "0 < length ?s1" by simp
  ultimately have "length (drop 1 ?r) < length s"
    unfolding length_drop by linarith
  with sn show ?thesis by simp
qed

text \<open>
  The \<^verbatim>\<open>while\<close> loop of the \<^verbatim>\<open>pids\<close> option: \<open>cur\<close> is the saved position of
  \<^verbatim>\<open>strtok\<close>, \<open>ipid\<close> the local of that name.
\<close>

function read_pids :: "params \<Rightarrow> string \<Rightarrow> int \<Rightarrow> pstate \<Rightarrow> pstate run" where
  "read_pids K cur ipid st =
     (case fst (strtok (CONFIG_FILE_SEPARATOR K) cur) of
        None \<Rightarrow> Cont (chan_upd st (ichan st) (\<lambda>c. c\<lparr>num_pids := ipid\<rparr>))
      | Some t \<Rightarrow>
          (let st1 = chan_upd st (ichan st) (\<lambda>c. c\<lparr>pids := (pids c)(ipid := atoi t)\<rparr>) in
           if atoi t < 10 \<or> atoi t \<ge> 8193
           then Halt (Exited (ERROR_CONF K))
                  (log_message MSG_ERROR ''Config issue : %s in pids, given pid : %d'' st1)
           else if ipid + 1 \<ge> int (MAX_PIDS K)
           then Halt (Exited (ERROR_CONF K))
                  (log_message MSG_ERROR ''Too many pids : %d channel : %d'' st1)
           else read_pids K (snd (strtok (CONFIG_FILE_SEPARATOR K) cur)) (ipid + 1) st1))"
  by pat_completeness auto
termination
  by (relation "measure (\<lambda>(K, cur, ipid, st). length cur)") (auto simp: strtok_shorter)

declare read_pids.simps [simp del]

text \<open>
  The tokens that successive calls \<^verbatim>\<open>strtok (NULL, delimiteurs)\<close> deliver from the
  saved position \<open>cur\<close>, in order: what a loop such as the one above reads.
\<close>

function tokens :: "string \<Rightarrow> string \<Rightarrow> string list" where
  "tokens d cur =
     (case fst (strtok d cur) of
        None \<Rightarrow> []
      | Some t \<Rightarrow> t # tokens d (snd (strtok d cur)))"
  by pat_completeness auto
termination
  by (relation "measure (\<lambda>(d, cur). length cur)") (auto simp: strtok_shorter)

declare tokens.simps [simp del]

text \<open>
  The check after the option chain, reached by every line that an option handled:
  the channel count, and the note of a newly defined channel.
\<close>

definition line_end :: "params \<Rightarrow> pstate \<Rightarrow> pstate run" where
  "line_end K st =
     (if ichan st > int (MAX_CHANNELS K)
      then Halt (Exited (ERROR_TOO_CHANNELS K))
             (log_message MSG_ERROR ''Too many channels : %d limit : %d'' st)
      else Cont (if curr_channel_old st \<noteq> ichan st
                 then st\<lparr>curr_channel_old := ichan st\<rparr> else st))"

text \<open>
  The options \<^verbatim>\<open>main\<close> reads itself, in the order of its \<^verbatim>\<open>else if\<close> chain. \<open>kw\<close> is
  the first token of the line, \<open>cur\<close> the saved position of \<^verbatim>\<open>strtok\<close> after it. The
  pointer \<^verbatim>\<open>c_chan\<close> is \<^verbatim>\<open>NULL\<close> when \<^verbatim>\<open>ichan < 0\<close> and \<^verbatim>\<open>&chan_p.channels[ichan]\<close>
  otherwise. \<open>None\<close> is the final \<^verbatim>\<open>else\<close>: no option of that name.
\<close>

definition own_option :: "params \<Rightarrow> pstate \<Rightarrow> string \<Rightarrow> string \<Rightarrow> pstate run option" where
  "own_option K st kw cur =
    (if kw = ''new_channel'' then
       Some (let st1 = st\<lparr>ichan := ichan st + 1\<rparr>;
                 st2 = chan_upd st1 (ichan st1) (\<lambda>c. c\<lparr>channel_ready := ALMOST_READY K\<rparr>)
             in Cont (log_message MSG_INFO ''New channel, current number %d'' st2))
     else if kw = ''timeout_no_diff'' then
       Some (with_int K cur st (\<lambda>v. Cont (st\<lparr>timeout_no_diff := v\<rparr>)))
     else if kw = ''tuning_no_diff'' then
       Some (with_int K cur st (\<lambda>v. Cont (st\<lparr>tuning_no_diff := v\<rparr>)))
     else if kw = ''dont_send_scrambled'' then
       Some (with_int K cur st (\<lambda>v. Cont (st\<lparr>dont_send_scrambled := v\<rparr>)))
     else if kw = ''filter_transport_error'' then
       Some (with_int K cur st (\<lambda>v. Cont (st\<lparr>filter_transport_error := v\<rparr>)))
     else if kw = ''psi_tables_filtering'' then
       Some (case next_arg K cur of
               None \<Rightarrow> Halt Crashed st
             | Some t \<Rightarrow>
                 (let st1 =
                        (if t = ''pat'' then st\<lparr>psi_tables_filtering := PSI_TABLES_FILTERING_PAT_ONLY\<rparr>
                         else if t = ''pat_cat''
                         then st\<lparr>psi_tables_filtering := PSI_TABLES_FILTERING_PAT_CAT_ONLY\<rparr>
                         else if t = ''none''
                         then st\<lparr>psi_tables_filtering := PSI_TABLES_FILTERING_NONE\<rparr>
                         else st);
                      st2 =
                        (if psi_tables_filtering st1 = PSI_TABLES_FILTERING_PAT_ONLY
                         then log_message MSG_INFO
                                ''You have enabled PSI tables filtering, only PAT will be send'' st1
                         else st1)
                  in Cont (if psi_tables_filtering st2 = PSI_TABLES_FILTERING_PAT_CAT_ONLY
                           then log_message MSG_INFO
                                  ''You have enabled PSI tables filtering, only PAT and CAT will be send''
                                  st2
                           else st2)))
     else if kw = ''dvr_buffer_size'' then
       Some (with_int K cur st (\<lambda>v.
               (let st1 = st\<lparr>dvr_buffer_size := v\<rparr>;
                    st2 =
                      (if dvr_buffer_size st1 \<le> 0
                       then (log_message MSG_WARN
                               ''The buffer size MUST be >0, forced to 1 packet'' st1)
                              \<lparr>dvr_buffer_size := 1\<rparr>
                       else st1)
                in Cont (st2\<lparr>show_buffer_stats := 1\<rparr>))))
     else if kw = ''dvr_thread'' then
       Some (with_int K cur st (\<lambda>v.
               (let st1 = st\<lparr>threaded_read := v\<rparr>
                in Cont (if threaded_read st1 \<noteq> 0
                         then log_message MSG_WARN
                                ''You want to use a thread for reading the card, please report bugs/problems''
                                st1
                         else st1))))
     else if kw = ''dvr_thread_buffer_size'' then
       Some (with_int K cur st (\<lambda>v. Cont (st\<lparr>max_thread_buffer_size := v\<rparr>)))
     else if kw = ''service_id'' \<or> kw = ''ts_id'' then
       Some (let st1 =
                   (if kw = ''ts_id''
                    then log_message MSG_WARN
                           ''The option ts_id is depreciated, use service_id instead.'' st
                    else st)
             in if ichan st1 < 0
                then Halt (Exited (ERROR_CONF K))
                       (log_message MSG_ERROR
                          ''service_id : You have to start a channel first (using new_channel)'' st1)
                else with_int K cur st1 (\<lambda>v.
                       Cont (chan_upd st1 (ichan st1) (\<lambda>c. c\<lparr>service_id := v\<rparr>))))
     else if kw = ''pids'' then
       Some (if ichan st < 0
             then Halt (Exited (ERROR_CONF K))
                    (log_message MSG_ERROR
                       ''pids : You have to start a channel first (using new_channel)'' st)
             else read_pids K cur 0
                    (chan_upd st (ichan st) (\<lambda>c. c\<lparr>pid_f := F_USER K, pmt_rewrite := 1\<rparr>)))
     else if kw = ''pmt_pid'' then
       Some (if ichan st < 0
             then Halt (Returned (- 1))
                    (log_message MSG_ERROR
                       ''pmt_pid : You have to start a channel first (using new_channel)'' st)
             else with_int K cur st (\<lambda>v.
                    (let st1 = chan_upd st (ichan st) (\<lambda>c. c\<lparr>pmt_pid := v\<rparr>)
                     in if v < 10 \<or> v > 8191
                        then Halt (Returned (- 1))
                               (log_message MSG_ERROR
                                  ''Configuration issue in pmt_pid, given PID : %d'' st1)
                        else Cont (chan_upd st1 (ichan st1) (\<lambda>c. c\<lparr>pmt_pid_f := F_USER K\<rparr>)))))
     else if kw = ''name'' then
       Some (if ichan st < 0
             then Halt (Exited (ERROR_CONF K))
                    (log_message MSG_ERROR
                       ''name : You have to start a channel first (using new_channel)'' st)
             else
               (let st1 = chan_upd st (ichan st) (\<lambda>c. c\<lparr>name_f := F_USER K\<rparr>)
                in case fst (strtok ''='' cur) of
                     None \<Rightarrow> Halt Crashed st1
                   | Some sub \<Rightarrow>
                       (case fst (strtok [CHR 0x0A] sub) of
                          None \<Rightarrow> Halt Crashed st1
                        | Some nm \<Rightarrow>
                            (let st2 = chan_upd st1 (ichan st1)
                                         (\<lambda>c. c\<lparr>name := take (MAX_NAME_LEN K - 1) nm\<rparr>);
                                 st3 = chan_upd st2 (ichan st2)
                                         (\<lambda>c. c\<lparr>user_name := take (MAX_NAME_LEN K - 1) nm\<rparr>)
                             in Cont (if length (buf_after_strtok [CHR 0x0A] sub)
                                           \<ge> MAX_NAME_LEN K - 1
                                      then log_message MSG_WARN ''Channel name too long'' st3
                                      else st3)))))
     else if kw = ''server_id'' then
       Some (with_int K cur st (\<lambda>v. Cont (st\<lparr>server_id := v\<rparr>)))
     else if kw = ''filename_pid'' then
       Some (case next_arg K cur of
               None \<Rightarrow> Halt Crashed st
             | Some t \<Rightarrow>
                 Cont (if length t \<ge> DEFAULT_PATH_LEN K
                       then log_message MSG_WARN ''filename_pid too long '' st
                       else st\<lparr>filename_pid := t\<rparr>))
     else if kw = ''check_cc'' then
       Some (with_int K cur st (\<lambda>v. Cont (st\<lparr>check_cc := v\<rparr>)))
     else if kw = ''t2mi_pid'' then
       Some (with_int K cur st (\<lambda>v.
               (let st1 = log_message MSG_INFO ''Demuxing T2-MI stream on pid %d as input''
                            (st\<lparr>t2mi_pid := v\<rparr>)
                in Cont (if t2mi_pid st1 < 1 \<or> t2mi_pid st1 > 8192
                         then (log_message MSG_WARN ''wrong t2mi pid, forced to 4096'' st1)
                                \<lparr>t2mi_pid := 4096\<rparr>
                         else st1))))
     else if kw = ''t2mi_plp'' then
       Some (with_int K cur st (\<lambda>v. Cont (st\<lparr>t2mi_plp := v\<rparr>)))
     else None)"

text \<open>
  The readers of the collaborators (\<^verbatim>\<open>read_tuning_configuration\<close>,
  \<^verbatim>\<open>read_autoconfiguration_configuration\<close>, \<^verbatim>\<open>read_sap_configuration\<close>, the two CAM
  readers when compiled in, \<^verbatim>\<open>read_unicast_configuration\<close>,
  \<^verbatim>\<open>read_multicast_configuration\<close>, \<^verbatim>\<open>read_rewrite_configuration\<close>,
  \<^verbatim>\<open>read_logging_configuration\<close>) are not part of this file. Each is a function from
  the number of the line, its first token and the blocks to the value it returns (0
  when the option is not one of its own, -1 on an error, anything else when it took the
  line) and the blocks as it leaves them. What else they store goes to channel fields
  \<^verbatim>\<open>main\<close> never assigns.
\<close>

type_synonym ext_reader = "nat \<Rightarrow> string \<Rightarrow> blocks \<Rightarrow> int \<times> blocks"

fun run_readers :: "ext_reader list \<Rightarrow> nat \<Rightarrow> string \<Rightarrow> blocks \<Rightarrow> int \<times> blocks" where
  "run_readers [] n kw b = (0, b)"
| "run_readers (r # rs) n kw b =
     (if fst (r n kw b) \<noteq> 0 then r n kw b else run_readers rs n kw (snd (r n kw b)))"

text \<open>\<^verbatim>\<open>s[0] == '#'\<close>, for a C string \<open>s\<close>.\<close>

definition is_comment :: "string \<Rightarrow> bool" where
  "is_comment s = (case s of [] \<Rightarrow> False | c # _ \<Rightarrow> c = CHR ''#'')"

text \<open>
  One pass of the body of the second \<^verbatim>\<open>while (fgets (...))\<close> loop, on the line \<open>raw\<close>.
  A line without \<^verbatim>\<open>=\<close> goes on only when its first token is \<^verbatim>\<open>new_channel\<close>; that
  first \<^verbatim>\<open>strtok\<close> has by then cut the buffer after the token.
\<close>

definition config_line :: "params \<Rightarrow> ext_reader list \<Rightarrow> nat \<Rightarrow> string \<Rightarrow> pstate \<Rightarrow> pstate run" where
  "config_line K rs n raw st =
    (let delims = CONFIG_FILE_SEPARATOR K;
         line = chomp raw
     in if CHR ''='' \<notin> set line \<and> fst (strtok delims line) \<noteq> Some ''new_channel''
        then Cont st
        else
          (let buf = (if CHR ''='' \<notin> set line then buf_after_strtok delims line else line)
           in if is_comment buf then Cont st
              else
                (case fst (strtok delims buf) of
                   None \<Rightarrow> Cont st
                 | Some kw \<Rightarrow>
                     if is_comment kw then Cont st
                     else
                       (let iRet = fst (run_readers rs n kw (blk st));
                            st1 = st\<lparr>blk := snd (run_readers rs n kw (blk st))\<rparr>
                        in if iRet \<noteq> 0
                           then (if iRet = - 1 then Halt (Exited (ERROR_CONF K)) st1
                                 else line_end K st1)
                           else
                             (case own_option K st1 kw (snd (strtok delims buf)) of
                                None \<Rightarrow>
                                  Cont (if length (buf_after_strtok delims buf) > 1
                                        then log_message MSG_WARN
                                               ''Config issue : unknow symbol : %s'' st1
                                        else st1)
                              | Some (Halt out s) \<Rightarrow> Halt out s
                              | Some (Cont s) \<Rightarrow> line_end K s)))))"

text \<open>The loop itself, over the lines \<^verbatim>\<open>fgets\<close> delivers; \<open>n\<close> counts them.\<close>

fun read_config :: "params \<Rightarrow> ext_reader list \<Rightarrow> nat \<Rightarrow> string list \<Rightarrow> pstate \<Rightarrow> pstate run" where
  "read_config K rs n [] st = Cont st"
| "read_config K rs n (l # ls) st =
     (case config_line K rs n l st of
        Halt out s \<Rightarrow> Halt out s
      | Cont s \<Rightarrow> read_config K rs (Suc n) ls s)"

section \<open>\<^verbatim>\<open>main\<close> around the loop\<close>

text \<open>
  What \<^verbatim>\<open>main\<close> receives from outside: the results of \<^verbatim>\<open>parse_cmd_line\<close>
  (\<^verbatim>\<open>listingcards\<close>, \<^verbatim>\<open>no_daemon\<close>, whether a configuration file is named,
  \<^verbatim>\<open>server_id\<close>), the lines \<^verbatim>\<open>fgets\<close> reads from that file, the blocks as the
  \<^verbatim>\<open>init_\<close> functions and the command line leave them, and the results of the system
  and collaborator calls: whether each \<^verbatim>\<open>fopen\<close> succeeds, whether \<^verbatim>\<open>signal\<close> finds
  the signal ignored, and the values \<^verbatim>\<open>daemon\<close>, \<^verbatim>\<open>open_fe\<close> and \<^verbatim>\<open>tune_it\<close> return.
\<close>

record env =
  listingcards :: int
  no_daemon :: int
  conf_given :: bool
  conf_lines :: "string list"
  server_id0 :: int
  show_buffer_stats0 :: int
  blocks0 :: blocks
  fopen_ok :: "file_id \<Rightarrow> bool"
  sig_ign :: "int \<Rightarrow> bool"
  daemon_ret :: int
  open_fe_ret :: int
  tune_it_ret :: int

text \<open>The signal numbers of \<^verbatim>\<open><signal.h>\<close> on Linux.\<close>

definition SIGHUP :: int where "SIGHUP = 1"
definition SIGUSR1 :: int where "SIGUSR1 = 10"
definition SIGUSR2 :: int where "SIGUSR2 = 12"
definition SIGPIPE :: int where "SIGPIPE = 13"
definition SIGALRM :: int where "SIGALRM = 14"

definition initial_state :: "params \<Rightarrow> env \<Rightarrow> pstate" where
  "initial_state K E =
     \<lparr>ichan = - 1, channels = Map.empty, curr_channel_old = - 1,
      dvr_buffer_size = DEFAULT_TS_BUFFER_SIZE K,
      max_thread_buffer_size = DEFAULT_THREAD_BUFFER_SIZE K,
      threaded_read = 0, show_buffer_stats = show_buffer_stats0 E,
      timeout_no_diff = ALARM_TIME_TIMEOUT_NO_DIFF K, tuning_no_diff = 0,
      dont_send_scrambled = 0, filter_transport_error = 0,
      psi_tables_filtering = PSI_TABLES_FILTERING_NONE, check_cc = 0, t2mi_pid = 0,
      t2mi_plp = 0, server_id = server_id0 E, filename_pid = PIDFILE_PATH K,
      number_of_channels = 0, write_streamed_channels = 1, blk = blocks0 E, trace = []\<rparr>"

definition upd_blk :: "(blocks \<Rightarrow> blocks) \<Rightarrow> pstate \<Rightarrow> pstate" where
  "upd_blk f st = st\<lparr>blk := f (blk st)\<rparr>"

text \<open>The label \<^verbatim>\<open>mumudvb_close_goto\<close>: \<^verbatim>\<open>main\<close> returns what \<^verbatim>\<open>mumudvb_close\<close> returns.\<close>

definition close_goto :: "pstate \<Rightarrow> pstate run" where
  "close_goto st = Halt Returned_close (add_event Mumudvb_close st)"

text \<open>Listing the cards, and the first part of becoming a daemon.\<close>

definition prelude :: "params \<Rightarrow> env \<Rightarrow> pstate \<Rightarrow> pstate run" where
  "prelude K E st =
     (if listingcards E \<noteq> 0
      then Halt (Exited 0) (add_event List_dvb_cards (add_event Print_info st))
      else if no_daemon E = 0 \<and> daemon_ret E \<noteq> 0
      then Halt (Exited 666)
             (log_message MSG_WARN ''Cannot daemonize: %s'' (add_event Daemonize st))
      else
        (let st1 = (if no_daemon E = 0 then add_event Daemonize st else st);
             st2 =
               (if no_daemon E = 0 \<and> log_type (blk st1) = LOGGING_UNDEFINED K
                then upd_blk (\<lambda>b. b\<lparr>log_type := LOGGING_SYSLOG K\<rparr>) (add_event Openlog st1)
                else st1)
         in Cont (add_event Print_info st2)))"

text \<open>
  The two passes over the configuration file: the first only prints it, the second is
  the loop above.
\<close>

definition configuration :: "params \<Rightarrow> env \<Rightarrow> ext_reader list \<Rightarrow> pstate \<Rightarrow> pstate run" where
  "configuration K E rs st =
     (if \<not> conf_given E then Cont st
      else if \<not> fopen_ok E Conf_display
      then Halt (Exited (ERROR_CONF_FILE K))
             (add_event Free_conf_filename
                (log_message MSG_ERROR ''%s: %s'' (add_event (Fopen Conf_display False) st)))
      else
        (let st1 = log_message MSG_FLOOD ''==== Configuration file ====''
                     (add_event (Fopen Conf_display True) st);
             st2 = st1\<lparr>trace := trace st1 @ map (\<lambda>l. Log MSG_FLOOD ''%03d %s'') (conf_lines E)\<rparr>;
             st3 = add_event (Fclose Conf_display)
                     (log_message MSG_FLOOD ''============ done ==========='' st2)
         in if \<not> fopen_ok E Conf_read
            then Halt (Exited (ERROR_CONF_FILE K))
                   (add_event Free_conf_filename
                      (log_message MSG_ERROR ''%s: %s'' (add_event (Fopen Conf_read False) st3)))
            else
              (case read_config K rs 0 (conf_lines E) (add_event (Fopen Conf_read True) st3) of
                 Halt out s \<Rightarrow> Halt out s
               | Cont s \<Rightarrow> Cont (add_event Free_conf_filename (add_event (Fclose Conf_read) s)))))"

text \<open>The defaults set once the file is read: the card, and what autoconfiguration turns on.\<close>

definition option_defaults :: "pstate \<Rightarrow> pstate" where
  "option_defaults st =
     (let st1 = (if card (blk st) = - 1 then upd_blk (\<lambda>b. b\<lparr>card := 0\<rparr>) st else st)
      in if autoconfiguration_on (blk st1)
         then
           (let st2 =
                  (if sap (blk st1) = OPTION_UNDEFINED \<and> multicast (blk st1) \<noteq> 0
                   then upd_blk (\<lambda>b. b\<lparr>sap := OPTION_ON\<rparr>)
                          (log_message MSG_INFO
                             ''Autoconfiguration, we activate SAP announces. if you want to disable them see the README.''
                             st1)
                   else st1);
                st3 =
                  (if rewrite_pat (blk st2) = OPTION_UNDEFINED
                   then log_message MSG_INFO
                          ''Autoconfiguration, we activate PAT rewriting. if you want to disable it see the README.''
                          (upd_blk (\<lambda>b. b\<lparr>rewrite_pat := OPTION_ON\<rparr>) st2)
                   else st2)
            in if rewrite_sdt (blk st3) = OPTION_UNDEFINED
               then log_message MSG_INFO
                      ''Autoconfiguration, we activate SDT rewriting. if you want to disable it see the README.''
                      (upd_blk (\<lambda>b. b\<lparr>rewrite_sdt := OPTION_ON\<rparr>) st3)
               else st3)
         else st1)"

text \<open>The two adjustments of the buffer sizes that follow.\<close>

definition buffer_limits :: "pstate \<Rightarrow> pstate" where
  "buffer_limits st =
     (let st1 =
            (if t2mi_pid st > 0 \<and> dvr_buffer_size st < 20
             then (log_message MSG_WARN
                     ''Warning : You set a DVR buffer size too low to accept T2-MI frames, I increase your dvr_buffer_size to 20 ...''
                     st)\<lparr>dvr_buffer_size := 20\<rparr>
             else st)
      in if max_thread_buffer_size st1 < dvr_buffer_size st1
         then (log_message MSG_WARN
                 ''Warning : You set a thread buffer size lower than your DVR buffer size, it's not possible to use such values. I increase your dvr_thread_buffer_size ...''
                 st1)\<lparr>max_thread_buffer_size := dvr_buffer_size st1\<rparr>
         else st1)"

text \<open>
  The templates of the device path, the unicast port and the log file, the opening of
  the log file, and the count of channels.
\<close>

definition templates :: "params \<Rightarrow> env \<Rightarrow> pstate \<Rightarrow> pstate" where
  "templates K E st =
     (let st1 = add_event (Expand_template ''card_dev_path'') st;
          st2 =
            (if portOut_str_set (blk st1)
             then log_message MSG_DEBUG ''computed unicast master port : %d''
                    (add_event (Expand_template ''portOut_str'') st1)
             else st1);
          st3 =
            (if log_file_path_set (blk st2)
             then
               (let st' = add_event (Fopen Log_file (fopen_ok E Log_file))
                            (add_event (Expand_template ''log_file_path'') st2)
                in if fopen_ok E Log_file
                   then upd_blk (\<lambda>b. b\<lparr>log_type := or (log_type b) (LOGGING_FILE K)\<rparr>) st'
                   else log_message MSG_WARN ''Cannot open log file %s: %s'' st')
             else st2);
          st4 = log_message MSG_INFO
                  ''========== End of configuration, MuMuDVB version %s is starting ==========''
                  st3
      in st4\<lparr>number_of_channels := ichan st4 + 1\<rparr>)"

text \<open>What is switched off when there is no multicast.\<close>

definition multicast_checks :: "pstate \<Rightarrow> pstate" where
  "multicast_checks st =
     (let st1 =
            (if ttl (blk st) = 0
             then upd_blk (\<lambda>b. b\<lparr>multicast := 0\<rparr>)
                    (log_message MSG_INFO
                       ''The multicast TTL is set to 0, multicast will be disabled.'' st)
             else st)
      in if multicast (blk st1) = 0
         then
           (let st2 =
                  (if rtp_header (blk st1) \<noteq> 0
                   then log_message MSG_INFO ''NO Multicast, RTP Header is disabled.''
                          (upd_blk (\<lambda>b. b\<lparr>rtp_header := 0\<rparr>) st1)
                   else st1)
            in if sap (blk st2) = OPTION_ON
               then upd_blk (\<lambda>b. b\<lparr>sap := OPTION_OFF\<rparr>)
                      (log_message MSG_INFO ''NO Multicast, SAP announces are disabled.'' st2)
               else st2)
         else st1)"

text \<open>The creation of one of the two channel lists.\<close>

definition create_list :: "env \<Rightarrow> file_id \<Rightarrow> pstate \<Rightarrow> pstate" where
  "create_list E f st =
     (let st1 = add_event (Fopen f (fopen_ok E f)) st
      in if \<not> fopen_ok E f
         then log_message MSG_WARN ''Can't create %s: %s'' (st1\<lparr>write_streamed_channels := 0\<rparr>)
         else add_event (Fclose f) st1)"

definition list_files :: "env \<Rightarrow> pstate \<Rightarrow> pstate" where
  "list_files E st =
     (let st1 = create_list E Streamed_list st;
          st2 = create_list E Not_streamed_list st1;
          st3 =
            (if cam_support (blk st2)
             then
               (let st' = add_event (Fopen Cam_info_file (fopen_ok E Cam_info_file)) st2
                in if \<not> fopen_ok E Cam_info_file
                   then log_message MSG_WARN ''Can't create %s: %s'' st'
                   else add_event (Fclose Cam_info_file) st')
             else st2)
      in log_message MSG_INFO ''Streaming. Freq %f'' st3)"

text \<open>\<^verbatim>\<open>if (signal (s, SignalHandler) == SIG_IGN) signal (s, SIG_IGN);\<close>\<close>

definition install :: "env \<Rightarrow> int \<Rightarrow> pstate \<Rightarrow> pstate" where
  "install E sg st =
     (let st1 = add_event (Install_handler sg) st
      in if sig_ign E sg then add_event (Restore_ignore sg) st1 else st1)"

definition signals :: "env \<Rightarrow> pstate \<Rightarrow> pstate" where
  "signals E st =
     (let st1 = install E SIGHUP (install E SIGUSR2 (install E SIGUSR1 (install E SIGALRM st)))
      in if tuning_timeout (blk st1) \<noteq> 0
         then add_event (Alarm (tuning_timeout (blk st1))) st1
         else st1)"

text \<open>
  Opening the frontend, writing the process id, tuning, and what \<^verbatim>\<open>main\<close> does once
  the card is tuned. \<open>iRet\<close> is the local of that name.
\<close>

definition tuning :: "params \<Rightarrow> env \<Rightarrow> pstate \<Rightarrow> pstate run" where
  "tuning K E st =
     (let from_file = (read_file_path (blk st) \<noteq> []);
          st1 =
            (if from_file
             then add_event (Open_fe True)
                    (log_message MSG_DEBUG ''Opening source file %s'' st)
             else add_event (Open_fe False) st);
          written =
            (if open_fe_ret E > 0 \<and> no_daemon E = 0
             then
               (let st' = log_message MSG_INFO ''The pid will be written in %s''
                            (add_event (Expand_template ''filename_pid'') st1);
                    st'' = add_event (Fopen Pid_file (fopen_ok E Pid_file)) st'
                in if \<not> fopen_ok E Pid_file
                   then Halt (Exited (ERROR_CREATE_FILE K)) (log_message MSG_INFO ''%s: %s'' st'')
                   else Cont (add_event (Fclose Pid_file) (add_event Write_pid st'')))
             else Cont st1)
      in case written of
           Halt out s \<Rightarrow> Halt out s
         | Cont st2 \<Rightarrow>
             (let st3 = (if open_fe_ret E > 0 \<and> \<not> from_file then add_event Tune_it st2 else st2);
                  iRet =
                    (if open_fe_ret E > 0
                     then (if from_file then 1 else tune_it_ret E)
                     else - 1)
              in if iRet < 0
                 then close_goto
                        (add_event (Set_interrupted (push_bit 8 (ERROR_TUNE K)))
                           (add_event Close_card_fd
                              (log_message MSG_INFO ''Tuning issue, card %d'' st3)))
                 else close_goto
                        (log_message MSG_INFO ''The pid will be written in %s''
                           (add_event Close_card_fd
                              (upd_blk (\<lambda>b. b\<lparr>card_tuned := 1\<rparr>)
                                 (log_message MSG_INFO ''Card %d, tuner %d tuned'' st3))))))"

text \<open>From the end of the loop to the return of \<^verbatim>\<open>main\<close>.\<close>

definition startup :: "params \<Rightarrow> env \<Rightarrow> pstate \<Rightarrow> pstate run" where
  "startup K E st =
     (let st1 = multicast_checks (templates K E (buffer_limits (option_defaults st)))
      in if multicast (blk st1) = 0 \<and> unicast (blk st1) = 0
         then close_goto
                (add_event (Set_interrupted (push_bit 8 (ERROR_CONF K)))
                   (log_message MSG_ERROR
                      ''NO Multicast AND NO unicast. No data can be send :(, Exciting ....'' st1))
         else tuning K E (signals E (list_files E st1)))"

definition main :: "params \<Rightarrow> env \<Rightarrow> ext_reader list \<Rightarrow> pstate run" where
  "main K E rs =
     (case prelude K E (initial_state K E) of
        Halt out s \<Rightarrow> Halt out s
      | Cont st1 \<Rightarrow>
          (case configuration K E rs st1 of
             Halt out s \<Rightarrow> Halt out s
           | Cont st2 \<Rightarrow> startup K E st2))"

section \<open>The signal handler\<close>

text \<open>
  What \<^verbatim>\<open>SignalHandler\<close> reads and writes: the value \<^verbatim>\<open>get_interrupted()\<close> returns, the
  global pointer \<^verbatim>\<open>card_tuned\<close> (\<open>None\<close> when it is \<^verbatim>\<open>NULL\<close>, otherwise the value it
  points to), the global \<^verbatim>\<open>received_signal\<close>, and the events it causes.
\<close>

record sig_state =
  interrupted :: int
  card_tuned_ptr :: "int option"
  received_signal :: int
  sig_trace :: "event list"

definition sig_event :: "event \<Rightarrow> sig_state \<Rightarrow> sig_state" where
  "sig_event e s = s\<lparr>sig_trace := sig_trace s @ [e]\<rparr>"

definition SignalHandler :: "params \<Rightarrow> int \<Rightarrow> sig_state \<Rightarrow> sig_state run" where
  "SignalHandler K signum s =
     (if signum = SIGALRM \<and> interrupted s = 0
      then
        (if (case card_tuned_ptr s of None \<Rightarrow> False | Some v \<Rightarrow> v = 0)
         then Halt (Exited (ERROR_TUNE K))
                (sig_event (Log MSG_INFO ''Card not tuned after timeout - exiting'') s)
         else Cont (sig_event (Install_handler signum) s))
      else if signum = SIGUSR1 \<or> signum = SIGUSR2 \<or> signum = SIGHUP
      then Cont (sig_event (Install_handler signum) (s\<lparr>received_signal := signum\<rparr>))
      else if signum \<noteq> SIGPIPE
      then Cont (sig_event (Install_handler signum)
                   (sig_event (Set_interrupted signum)
                      (sig_event (Log MSG_ERROR ''Caught signal %d'') s)))
      else Cont (sig_event (Install_handler signum) s))"

section \<open>Ways of looking at a run\<close>

text \<open>The state a run ends in or goes on with, and how it ended, if it did.\<close>

definition final_state :: "'s run \<Rightarrow> 's" where
  "final_state r = (case r of Halt out s \<Rightarrow> s | Cont s \<Rightarrow> s)"

definition run_outcome :: "'s run \<Rightarrow> outcome option" where
  "run_outcome r = (case r of Halt out s \<Rightarrow> Some out | Cont s \<Rightarrow> None)"

text \<open>The state once the collaborators' readers have seen the line.\<close>

definition after_readers :: "ext_reader list \<Rightarrow> nat \<Rightarrow> string \<Rightarrow> pstate \<Rightarrow> pstate" where
  "after_readers rs n kw st = st\<lparr>blk := snd (run_readers rs n kw (blk st))\<rparr>"

text \<open>The events that touch the card: opening the frontend, and tuning.\<close>

fun opens_or_tunes :: "event \<Rightarrow> bool" where
  "opens_or_tunes (Open_fe b) = True"
| "opens_or_tunes Tune_it = True"
| "opens_or_tunes e = False"

text \<open>A state is quiet when the card has not been touched so far.\<close>

definition quiet :: "pstate \<Rightarrow> bool" where
  "quiet st = (\<forall>e \<in> set (trace st). \<not> opens_or_tunes e)"

text \<open>The last \<open>n\<close> events of a state's trace.\<close>

definition last_events :: "nat \<Rightarrow> pstate \<Rightarrow> event list" where
  "last_events n st = drop (length (trace st) - n) (trace st)"

text \<open>
  What decides the way through the end of \<^verbatim>\<open>main\<close>: the multicast TTL and switch, the
  unicast switch, and the path of the file that stands for the card, if any.
\<close>

definition sinks :: "pstate \<Rightarrow> int \<times> int \<times> int \<times> string" where
  "sinks st = (ttl (blk st), multicast (blk st), unicast (blk st), read_file_path (blk st))"

text \<open>
  The PIDs a channel holds: \<^verbatim>\<open>pid_i.pids[0]\<close> to \<^verbatim>\<open>pid_i.pids[num_pids - 1]\<close>.
\<close>

definition accepted_pids :: "channel \<Rightarrow> int list" where
  "accepted_pids c = map (\<lambda>j. pids c (int j)) [0..<nat (num_pids c)]"

text \<open>
  The values the \<^verbatim>\<open>pids\<close> option lets through: its test refuses a value below 10
  and a value of 8193 or more.
\<close>

definition pid_accepted :: "int \<Rightarrow> bool" where
  "pid_accepted p = (10 \<le> p \<and> p \<le> 8192)"

definition pids_ok :: "channel \<Rightarrow> bool" where
  "pids_ok c = (\<forall>j. 0 \<le> j \<and> j < num_pids c \<longrightarrow> pid_accepted (pids c j))"

definition all_pids_ok :: "pstate \<Rightarrow> bool" where
  "all_pids_ok st = (\<forall>i. pids_ok (chan_get st i))"

text \<open>The two buffer sizes, and the T2-MI input PID that one of them depends on.\<close>

definition buffers :: "pstate \<Rightarrow> int \<times> int \<times> int" where
  "buffers st = (dvr_buffer_size st, max_thread_buffer_size st, t2mi_pid st)"

text \<open>
  The relation between the buffer sizes that the program needs: at least one packet from
  the card, a thread buffer that holds at least as much, and room for a T2-MI frame
  when T2-MI demultiplexing is on (its PID is positive).
\<close>

definition buffer_invariant :: "pstate \<Rightarrow> bool" where
  "buffer_invariant st =
     (1 \<le> dvr_buffer_size st \<and> dvr_buffer_size st \<le> max_thread_buffer_size st \<and>
      (0 < t2mi_pid st \<longrightarrow> 20 \<le> dvr_buffer_size st))"

text \<open>
  The calls of \<^verbatim>\<open>alarm\<close> among the events of a run, in the order they were made, and
  the states in which none has been made so far.
\<close>

fun is_alarm :: "event \<Rightarrow> bool" where
  "is_alarm (Alarm n) = True"
| "is_alarm e = False"

definition alarms :: "event list \<Rightarrow> event list" where
  "alarms es = filter is_alarm es"

definition unarmed :: "pstate \<Rightarrow> bool" where
  "unarmed st = (alarms (trace st) = [])"

section \<open>Sample values\<close>

text \<open>
  One choice of the header constants, and a state of the signal handler's variables,
  for evaluating the definitions on concrete inputs.
\<close>

definition sample_params :: params where
  "sample_params =
     \<lparr>MAX_CHANNELS = 2, MAX_PIDS = 4, MAX_NAME_LEN = 8, DEFAULT_PATH_LEN = 16,
      CONFIG_FILE_SEPARATOR = '' ='', PIDFILE_PATH = ''/var/run/dvbzap.pid'',
      DEFAULT_TS_BUFFER_SIZE = 20, DEFAULT_THREAD_BUFFER_SIZE = 5000,
      ALARM_TIME_TIMEOUT_NO_DIFF = 600, ERROR_CONF_FILE = 2, ERROR_CONF = 3,
      ERROR_TOO_CHANNELS = 4, ERROR_CREATE_FILE = 5, ERROR_TUNE = 7, ALMOST_READY = 1,
      F_USER = 1, LOGGING_UNDEFINED = 0, LOGGING_SYSLOG = 2, LOGGING_FILE = 4\<rparr>"

definition sample_sig :: "int \<Rightarrow> int option \<Rightarrow> sig_state" where
  "sample_sig i t = \<lparr>interrupted = i, card_tuned_ptr = t, received_signal = 0, sig_trace = []\<rparr>"

text \<open>
  Blocks and an environment in which every call succeeds: multicast is on, the card
  opens and tunes, the program stays in the foreground. The configuration file is the
  argument. \<open>sample_lines\<close> is a file of five lines.
\<close>

definition sample_blocks :: blocks where
  "sample_blocks =
     \<lparr>card = - 1, tuning_timeout = 300, read_file_path = [], card_tuned = 0,
      autoconfiguration_on = False, sap = OPTION_UNDEFINED, rewrite_pat = OPTION_UNDEFINED,
      rewrite_sdt = OPTION_UNDEFINED, multicast = 1, ttl = 2, rtp_header = 0, unicast = 0,
      portOut_str_set = False, log_file_path_set = False, log_type = 0, cam_support = False\<rparr>"

definition sample_env :: "string list \<Rightarrow> env" where
  "sample_env ls =
     \<lparr>listingcards = 0, no_daemon = 1, conf_given = True, conf_lines = ls, server_id0 = 0,
      show_buffer_stats0 = 0, blocks0 = sample_blocks, fopen_ok = (\<lambda>_. True),
      sig_ign = (\<lambda>_. False), daemon_ret = 0, open_fe_ret = 3, tune_it_ret = 0\<rparr>"

definition sample_lines :: "string list" where
  "sample_lines =
     [''new_channel'' @ [CHR 0x0A], ''pids=100 8192'' @ [CHR 0x0A],
      ''dvr_buffer_size=-3'' @ [CHR 0x0A], ''t2mi_pid=5'' @ [CHR 0x0A],
      ''dvr_thread_buffer_size=2'' @ [CHR 0x0A]]"

text \<open>
  Three environments without a configuration file: the sample one as it is; one where
  multicast is off, so that no output is left; one where the list of streamed channels
  cannot be created.
\<close>

definition plain_env :: env where
  "plain_env = (sample_env [])\<lparr>conf_given := False\<rparr>"

definition no_sink_env :: env where
  "no_sink_env = (sample_env [])\<lparr>conf_given := False, blocks0 := sample_blocks\<lparr>multicast := 0\<rparr>\<rparr>"

definition no_list_env :: env where
  "no_list_env = (sample_env [])\<lparr>conf_given := False, fopen_ok := (\<lambda>f. f \<noteq> Streamed_list)\<rparr>"

section \<open>Facts about the model\<close>


lemma strtok_None:
  "dropWhile (\<lambda>c. c \<in> set d) s = [] \<Longrightarrow> strtok d s = (None, [])"
  unfolding strtok_def Let_def by (simp only: simp_thms if_True)

lemma strtok_Some:
  "dropWhile (\<lambda>c. c \<in> set d) s \<noteq> [] \<Longrightarrow>
   strtok d s =
     (Some (takeWhile (\<lambda>c. c \<notin> set d) (dropWhile (\<lambda>c. c \<in> set d) s)),
      drop 1 (dropWhile (\<lambda>c. c \<notin> set d) (dropWhile (\<lambda>c. c \<in> set d) s)))"
  unfolding strtok_def Let_def by (simp only: if_False)

lemma dropWhile_takeWhile_append:
  "dropWhile P (takeWhile P s @ ys) = dropWhile P ys"
  by (induction s) auto

lemma strtok_buf_after:
  "fst (strtok d (buf_after_strtok d s)) = fst (strtok d s)"
proof (cases "dropWhile (\<lambda>c. c \<in> set d) s = []")
  case True
  then show ?thesis by (simp only: buf_after_strtok_def strtok_None fst_conv option.case)
next
  case False
  let ?s1 = "dropWhile (\<lambda>c. c \<in> set d) s"
  let ?t = "takeWhile (\<lambda>c. c \<notin> set d) ?s1"
  obtain x xs where s1: "?s1 = x # xs" using False by (cases ?s1) auto
  have "x = hd ?s1" using s1 by simp
  then have hd: "x \<notin> set d" using hd_dropWhile [OF False] by simp
  have t: "?t = x # takeWhile (\<lambda>c. c \<notin> set d) xs" using hd unfolding s1 by simp
  have b: "buf_after_strtok d s = takeWhile (\<lambda>c. c \<in> set d) s @ ?t"
    by (simp only: buf_after_strtok_def strtok_Some [OF False] fst_conv option.case)
  have dw: "dropWhile (\<lambda>c. c \<in> set d) (takeWhile (\<lambda>c. c \<in> set d) s @ ?t) = ?t"
    unfolding t dropWhile_takeWhile_append using hd by simp
  have d2: "dropWhile (\<lambda>c. c \<in> set d) (buf_after_strtok d s) = ?t"
    by (simp only: b dw)
  have ne: "dropWhile (\<lambda>c. c \<in> set d) (buf_after_strtok d s) \<noteq> []"
    unfolding d2 t by simp
  have "fst (strtok d (buf_after_strtok d s)) = Some (takeWhile (\<lambda>c. c \<notin> set d) ?t)"
    by (simp only: strtok_Some [OF ne] d2 fst_conv)
  also have "takeWhile (\<lambda>c. c \<notin> set d) ?t = ?t" by simp
  also have "Some ?t = fst (strtok d s)" by (simp only: strtok_Some [OF False] fst_conv)
  finally show ?thesis .
qed

lemma config_line_own:
  assumes "fst (strtok (CONFIG_FILE_SEPARATOR K) (chomp raw)) = Some kw"
      and "CHR ''='' \<in> set (chomp raw)"
      and "\<not> is_comment (chomp raw)" and "\<not> is_comment kw"
      and "fst (run_readers rs n kw (blk st)) = 0"
      and "own_option K (after_readers rs n kw st) kw (snd (strtok (CONFIG_FILE_SEPARATOR K) (chomp raw))) = Some (Cont s)"
  shows "config_line K rs n raw st = line_end K s"
  using assms by (simp add: config_line_def Let_def after_readers_def)

lemma config_line_new_channel:
  assumes "fst (strtok (CONFIG_FILE_SEPARATOR K) (chomp raw)) = Some ''new_channel''"
      and "\<not> is_comment (chomp raw)"
      and "fst (run_readers rs n ''new_channel'' (blk st)) = 0"
  shows "config_line K rs n raw st =
           line_end K (log_message MSG_INFO ''New channel, current number %d''
             (chan_upd ((after_readers rs n ''new_channel'' st)\<lparr>ichan := ichan st + 1\<rparr>) (ichan st + 1)
                (\<lambda>c. c\<lparr>channel_ready := ALMOST_READY K\<rparr>)))"
proof -
  have c: "\<not> is_comment (buf_after_strtok (CONFIG_FILE_SEPARATOR K) (chomp raw))"
    using assms(1,2)
    by (cases "chomp raw")
      (auto simp: is_comment_def buf_after_strtok_def split: option.splits)
  show ?thesis
    using assms c
    by (simp add: config_line_def Let_def after_readers_def strtok_buf_after own_option_def is_comment_def)
qed


lemmas state_defs = chan_upd_def chan_get_def log_message_def add_event_def upd_blk_def

lemmas signal_numbers = SIGALRM_def SIGUSR1_def SIGUSR2_def SIGHUP_def SIGPIPE_def

lemma read_pids_frame:
  "read_pids K cur ipid st = Cont s \<Longrightarrow> \<exists>c t. s = st\<lparr>channels := c, trace := t\<rparr>"
proof (induction K cur ipid st rule: read_pids.induct)
  case (1 K cur ipid st)
  show ?case
  proof (cases "fst (strtok (CONFIG_FILE_SEPARATOR K) cur)")
    case None
    with "1.prems" have "s = chan_upd st (ichan st) (\<lambda>c. c\<lparr>num_pids := ipid\<rparr>)"
      by (simp add: read_pids.simps)
    then have "s = st\<lparr>channels := channels s, trace := trace st\<rparr>"
      by (simp add: chan_upd_def)
    then show ?thesis by blast
  next
    case (Some t)
    let ?st1 = "chan_upd st (ichan st) (\<lambda>c. c\<lparr>pids := (pids c)(ipid := atoi t)\<rparr>)"
    from "1.prems" Some have ok: "\<not> (atoi t < 10 \<or> atoi t \<ge> 8193)" "\<not> ipid + 1 \<ge> int (MAX_PIDS K)"
      and rec: "read_pids K (snd (strtok (CONFIG_FILE_SEPARATOR K) cur)) (ipid + 1) ?st1 = Cont s"
      by (auto simp: read_pids.simps [of K cur ipid st] Let_def split: if_splits)
    from "1.IH" [OF Some refl ok rec] obtain c t' where "s = ?st1\<lparr>channels := c, trace := t'\<rparr>"
      by blast
    then have "s = st\<lparr>channels := c, trace := t'\<rparr>" by (simp add: chan_upd_def)
    then show ?thesis by blast
  qed
qed

lemma line_end_Cont: "line_end K st = Cont s \<Longrightarrow> s = st\<lparr>curr_channel_old := ichan st\<rparr> \<and> ichan st \<le> int (MAX_CHANNELS K)"
  by (auto simp: line_end_def split: if_splits)

lemma own_option_dvr:
  assumes "own_option K st kw cur = Some (Cont s)" and "1 \<le> dvr_buffer_size st"
  shows "1 \<le> dvr_buffer_size s"
  using assms unfolding own_option_def with_int_def
  by (auto simp: Let_def state_defs split: if_splits option.splits dest!: read_pids_frame)


lemma config_line_Cont:
  assumes "config_line K rs n raw st = Cont s"
  shows "s = st \<or>
         (\<exists>b. line_end K (st\<lparr>blk := b\<rparr>) = Cont s) \<or>
         (\<exists>b. s = st\<lparr>blk := b\<rparr> \<or>
               s = log_message MSG_WARN ''Config issue : unknow symbol : %s'' (st\<lparr>blk := b\<rparr>)) \<or>
         (\<exists>b kw cur s'. own_option K (st\<lparr>blk := b\<rparr>) kw cur = Some (Cont s') \<and>
                          line_end K s' = Cont s)"
  using assms unfolding config_line_def Let_def
  by (auto split: if_splits option.splits run.splits)

lemma config_line_dvr:
  assumes "config_line K rs n raw st = Cont s" and "1 \<le> dvr_buffer_size st"
  shows "1 \<le> dvr_buffer_size s"
  using config_line_Cont [OF assms(1)] assms(2)
  by (auto simp: state_defs dest!: line_end_Cont dest: own_option_dvr)

lemma read_config_dvr:
  "read_config K rs n ls st = Cont s \<Longrightarrow> 1 \<le> dvr_buffer_size st \<Longrightarrow> 1 \<le> dvr_buffer_size s"
proof (induction ls arbitrary: n st)
  case Nil
  then show ?case by simp
next
  case (Cons l ls)
  from Cons.prems(1) obtain s1 where a: "config_line K rs n l st = Cont s1"
    and b: "read_config K rs (Suc n) ls s1 = Cont s"
    by (auto split: run.splits)
  from config_line_dvr [OF a Cons.prems(2)] Cons.IH [OF b] show ?case by blast
qed

lemma prelude_dvr: "prelude K E st = Cont s \<Longrightarrow> dvr_buffer_size s = dvr_buffer_size st"
  by (auto simp: prelude_def Let_def state_defs split: if_splits)

lemma configuration_Cont:
  assumes "configuration K E rs st = Cont s"
  shows "s = st \<or>
         (\<exists>t s'. read_config K rs 0 (conf_lines E) (st\<lparr>trace := t\<rparr>) = Cont s' \<and>
                  s = s'\<lparr>trace := trace s' @ [Fclose Conf_read, Free_conf_filename]\<rparr>)"
proof (cases "conf_given E")
  case False
  with assms show ?thesis by (simp add: configuration_def)
next
  case True
  let ?t = "trace st @ Fopen Conf_display True # Log MSG_FLOOD ''==== Configuration file ===='' #
              map (\<lambda>l. Log MSG_FLOOD ''%03d %s'') (conf_lines E) @
              [Log MSG_FLOOD ''============ done ==========='', Fclose Conf_display,
               Fopen Conf_read True]"
  from True assms obtain s' where "read_config K rs 0 (conf_lines E) (st\<lparr>trace := ?t\<rparr>) = Cont s'"
    and "s = s'\<lparr>trace := trace s' @ [Fclose Conf_read, Free_conf_filename]\<rparr>"
    by (auto simp: configuration_def Let_def state_defs split: if_splits run.splits)
  then show ?thesis by blast
qed

lemma configuration_dvr:
  assumes "configuration K E rs st = Cont s" and "1 \<le> dvr_buffer_size st"
  shows "1 \<le> dvr_buffer_size s"
  using configuration_Cont [OF assms(1)] assms(2)
  by (auto dest!: read_config_dvr)

lemma buffer_limits_inv:
  "1 \<le> dvr_buffer_size st \<Longrightarrow>
   1 \<le> dvr_buffer_size (buffer_limits st) \<and>
   dvr_buffer_size (buffer_limits st) \<le> max_thread_buffer_size (buffer_limits st) \<and>
   (0 < t2mi_pid (buffer_limits st) \<longrightarrow> 20 \<le> dvr_buffer_size (buffer_limits st))"
  by (auto simp: buffer_limits_def Let_def state_defs)

lemma option_defaults_buffers: "buffers (option_defaults st) = buffers st"
  by (simp add: option_defaults_def buffers_def Let_def state_defs)

lemma templates_buffers: "buffers (templates K E st) = buffers st"
  by (simp add: templates_def buffers_def Let_def state_defs)

lemma multicast_checks_buffers: "buffers (multicast_checks st) = buffers st"
  by (simp add: multicast_checks_def buffers_def Let_def state_defs)

lemma list_files_buffers: "buffers (list_files E st) = buffers st"
  by (simp add: list_files_def create_list_def buffers_def Let_def state_defs)

lemma signals_buffers: "buffers (signals E st) = buffers st"
  by (simp add: signals_def install_def buffers_def Let_def state_defs)

lemma close_goto_buffers: "close_goto st = Halt out s \<Longrightarrow> buffers s = buffers st"
  by (auto simp: close_goto_def buffers_def state_defs)

lemma tuning_buffers: "tuning K E st = Halt out s \<Longrightarrow> buffers s = buffers st"
  by (auto simp: tuning_def close_goto_def buffers_def Let_def state_defs split: if_splits run.splits)

lemma startup_buffers:
  assumes "startup K E st = Halt out s"
  shows "buffers s = buffers (buffer_limits (option_defaults st))"
proof -
  let ?st1 = "multicast_checks (templates K E (buffer_limits (option_defaults st)))"
  have b1: "buffers ?st1 = buffers (buffer_limits (option_defaults st))"
    by (simp only: multicast_checks_buffers templates_buffers)
  show ?thesis
  proof (cases "multicast (blk ?st1) = 0 \<and> unicast (blk ?st1) = 0")
    case True
    with assms have "close_goto
        (add_event (Set_interrupted (push_bit 8 (ERROR_CONF K)))
           (log_message MSG_ERROR
              ''NO Multicast AND NO unicast. No data can be send :(, Exciting ....'' ?st1)) =
        Halt out s"
      by (simp add: startup_def Let_def)
    from close_goto_buffers [OF this] have "buffers s = buffers ?st1"
      by (simp add: buffers_def state_defs)
    with b1 show ?thesis by simp
  next
    case False
    with assms have "tuning K E (signals E (list_files E ?st1)) = Halt out s"
      by (auto simp: startup_def Let_def)
    from tuning_buffers [OF this] show ?thesis
      by (simp only: signals_buffers list_files_buffers b1)
  qed
qed

lemma read_pids_Halt: "read_pids K cur ipid st = Halt out s \<Longrightarrow> out = Exited (ERROR_CONF K)"
proof (induction K cur ipid st rule: read_pids.induct)
  case (1 K cur ipid st)
  show ?case
  proof (cases "fst (strtok (CONFIG_FILE_SEPARATOR K) cur)")
    case None
    with "1.prems" show ?thesis by (simp add: read_pids.simps)
  next
    case (Some t)
    show ?thesis
    proof (cases "(atoi t < 10 \<or> atoi t \<ge> 8193) \<or> ipid + 1 \<ge> int (MAX_PIDS K)")
      case True
      with "1.prems" Some show ?thesis
        by (auto simp: read_pids.simps [of K cur ipid st] Let_def split: if_splits)
    next
      case False
      with "1.prems" Some have
        "read_pids K (snd (strtok (CONFIG_FILE_SEPARATOR K) cur)) (ipid + 1)
           (chan_upd st (ichan st) (\<lambda>c. c\<lparr>pids := (pids c)(ipid := atoi t)\<rparr>)) = Halt out s"
        by (auto simp: read_pids.simps [of K cur ipid st] Let_def split: if_splits)
      with "1.IH" [OF Some refl] False show ?thesis by blast
    qed
  qed
qed

lemma own_option_Halt: "own_option K st kw cur = Some (Halt out s) \<Longrightarrow> out \<noteq> Returned_close"
  unfolding own_option_def with_int_def
  by (auto simp: Let_def split: if_splits option.splits dest!: read_pids_Halt)

lemma config_line_Halt: "config_line K rs n raw st = Halt out s \<Longrightarrow> out \<noteq> Returned_close"
  unfolding config_line_def Let_def
  by (auto simp: line_end_def split: if_splits option.splits run.splits dest!: own_option_Halt)

lemma read_config_Halt: "read_config K rs n ls st = Halt out s \<Longrightarrow> out \<noteq> Returned_close"
proof (induction ls arbitrary: n st)
  case Nil
  then show ?case by simp
next
  case (Cons l ls)
  then show ?case by (auto split: run.splits dest: config_line_Halt)
qed

lemma main_close:
  assumes "main K E rs = Halt Returned_close s"
  shows "\<exists>st1 st2. prelude K E (initial_state K E) = Cont st1 \<and>
           configuration K E rs st1 = Cont st2 \<and> startup K E st2 = Halt Returned_close s"
proof -
  have p: "\<And>st out s. prelude K E st = Halt out s \<Longrightarrow> out \<noteq> Returned_close"
    by (auto simp: prelude_def Let_def split: if_splits)
  have c: "\<And>st out s. configuration K E rs st = Halt out s \<Longrightarrow> out \<noteq> Returned_close"
    by (auto simp: configuration_def Let_def split: if_splits run.splits dest: read_config_Halt)
  from assms show ?thesis
    by (auto simp: main_def split: run.splits dest: p c)
qed

lemma line_end_alt:
  "line_end K st =
     (if ichan st > int (MAX_CHANNELS K)
      then Halt (Exited (ERROR_TOO_CHANNELS K))
             (log_message MSG_ERROR ''Too many channels : %d limit : %d'' st)
      else Cont (st\<lparr>curr_channel_old := ichan st\<rparr>))"
proof -
  have "curr_channel_old st = ichan st \<Longrightarrow> st\<lparr>curr_channel_old := ichan st\<rparr> = st"
    by (rule pstate.equality) simp_all
  then show ?thesis by (auto simp: line_end_def)
qed

lemma line_end_le:
  "ichan s0 \<le> int (MAX_CHANNELS K) \<Longrightarrow> line_end K s0 = Cont (s0\<lparr>curr_channel_old := ichan s0\<rparr>)"
  by (simp add: line_end_alt)

lemma line_end_gt:
  "\<not> ichan s0 \<le> int (MAX_CHANNELS K) \<Longrightarrow>
   line_end K s0 =
     Halt (Exited (ERROR_TOO_CHANNELS K))
       (log_message MSG_ERROR ''Too many channels : %d limit : %d'' s0)"
  by (simp add: line_end_alt)

lemmas eval_defs =
  main_def prelude_def configuration_def startup_def tuning_def signals_def install_def
  list_files_def create_list_def multicast_checks_def templates_def buffer_limits_def
  option_defaults_def close_goto_def initial_state_def config_line_def own_option_def
  line_end_def with_int_def next_arg_def chomp_def is_comment_def strtok_def
  buf_after_strtok_def atoi_defs read_pids.simps state_defs
  zero_channel_def signal_numbers sample_params_def Let_def


lemma sample_run:
  "\<exists>s. main sample_params (sample_env sample_lines) [] = Halt Returned_close s \<and>
       buffers s = (20, 20, 5) \<and>
       accepted_pids (chan_get s 0) = [100, 8192] \<and>
       card_tuned (blk s) = 1 \<and>
       trace s =
         [Print_info, Fopen Conf_display True, Log MSG_FLOOD ''==== Configuration file ===='',
          Log MSG_FLOOD ''%03d %s'', Log MSG_FLOOD ''%03d %s'', Log MSG_FLOOD ''%03d %s'',
          Log MSG_FLOOD ''%03d %s'', Log MSG_FLOOD ''%03d %s'',
          Log MSG_FLOOD ''============ done ==========='', Fclose Conf_display,
          Fopen Conf_read True, Log MSG_INFO ''New channel, current number %d'',
          Log MSG_WARN ''The buffer size MUST be >0, forced to 1 packet'',
          Log MSG_INFO ''Demuxing T2-MI stream on pid %d as input'',
          Fclose Conf_read, Free_conf_filename,
          Log MSG_WARN
            ''Warning : You set a DVR buffer size too low to accept T2-MI frames, I increase your dvr_buffer_size to 20 ...'',
          Log MSG_WARN
            ''Warning : You set a thread buffer size lower than your DVR buffer size, it's not possible to use such values. I increase your dvr_thread_buffer_size ...'',
          Expand_template ''card_dev_path'',
          Log MSG_INFO
            ''========== End of configuration, MuMuDVB version %s is starting =========='',
          Fopen Streamed_list True, Fclose Streamed_list,
          Fopen Not_streamed_list True, Fclose Not_streamed_list,
          Log MSG_INFO ''Streaming. Freq %f'',
          Install_handler 14, Install_handler 10, Install_handler 12, Install_handler 1,
          Alarm 300, Open_fe False, Tune_it,
          Log MSG_INFO ''Card %d, tuner %d tuned'', Close_card_fd,
          Log MSG_INFO ''The pid will be written in %s'', Mumudvb_close]"
  by (simp add: eval_defs sample_env_def sample_blocks_def sample_lines_def
      accepted_pids_def buffers_def numeral_2_eq_2)

lemma sample_tokens:
  "tokens (CONFIG_FILE_SEPARATOR sample_params) ''5'' =
     ''5'' # tokens (CONFIG_FILE_SEPARATOR sample_params) []"
  by (subst tokens.simps) (simp add: strtok_def sample_params_def)

text \<open>
  What \<^verbatim>\<open>atoi\<close> returns is an \<^verbatim>\<open>int\<close>, and the options see a number too large for
  one as what is left of it: the lines \<^verbatim>\<open>pids=4294967396\<close>, \<^verbatim>\<open>t2mi_pid=4294967301\<close> and
  \<^verbatim>\<open>dvr_buffer_size=-4294967200\<close> are read as 100, 5 and 96, and accepted without a
  warning.
\<close>

lemma atoi_range: "- 2147483648 \<le> atoi s \<and> atoi s \<le> 2147483647"
proof -
  have "0 \<le> (strtol s + 2147483648) mod 4294967296" by simp
  moreover have "(strtol s + 2147483648) mod 4294967296 < 4294967296" by simp
  ultimately show ?thesis by (simp add: atoi_def int_of_long_def)
qed

lemma atoi_wraps:
  "atoi ''4294967396'' = 100 \<and> atoi ''4294967301'' = 5 \<and> atoi ''4294967296'' = 0 \<and>
   atoi ''2147483648'' = - 2147483648 \<and> atoi ''-4294967200'' = 96 \<and>
   atoi ''99999999999999999999'' = - 1"
  by (simp add: atoi_defs)

lemma sample_wrapped_values:
  "\<exists>s. read_config sample_params [] 0
          [''new_channel'', ''pids=4294967396'', ''t2mi_pid=4294967301'',
           ''dvr_buffer_size=-4294967200'']
          (initial_state sample_params (sample_env [])) = Cont s \<and>
       accepted_pids (chan_get s 0) = [100] \<and> t2mi_pid s = 5 \<and> dvr_buffer_size s = 96 \<and>
       trace s = [Log MSG_INFO ''New channel, current number %d'',
                  Log MSG_INFO ''Demuxing T2-MI stream on pid %d as input'']"
  by (simp add: eval_defs sample_env_def sample_blocks_def accepted_pids_def)

lemma wrapped_tokens:
  "tokens (CONFIG_FILE_SEPARATOR sample_params) ''4294967301'' =
     ''4294967301'' # tokens (CONFIG_FILE_SEPARATOR sample_params) []"
  by (subst tokens.simps) (simp add: strtok_def sample_params_def)

lemma pids_ok_accepted: "pids_ok c \<Longrightarrow> p \<in> set (accepted_pids c) \<Longrightarrow> pid_accepted p"
  by (auto simp: pids_ok_def accepted_pids_def)

lemma chan_get_chan_upd:
  "chan_get (chan_upd st i f) k = (if k = i then f (chan_get st i) else chan_get st k)"
  by (simp add: chan_get_def chan_upd_def)

lemma ichan_chan_upd: "ichan (chan_upd st i f) = ichan st"
  by (simp add: chan_upd_def)

lemma read_pids_ok:
  "read_pids K cur ipid st = Cont s \<Longrightarrow>
   \<forall>i. i \<noteq> ichan st \<longrightarrow> pids_ok (chan_get st i) \<Longrightarrow>
   \<forall>j. 0 \<le> j \<and> j < ipid \<longrightarrow> pid_accepted (pids (chan_get st (ichan st)) j) \<Longrightarrow>
   pids_ok (chan_get s i)"
proof (induction K cur ipid st rule: read_pids.induct)
  case (1 K cur ipid st)
  show ?case
  proof (cases "fst (strtok (CONFIG_FILE_SEPARATOR K) cur)")
    case None
    with "1.prems"(1) have "s = chan_upd st (ichan st) (\<lambda>c. c\<lparr>num_pids := ipid\<rparr>)"
      by (simp add: read_pids.simps)
    with "1.prems"(2,3) show ?thesis
      by (auto simp: chan_get_chan_upd pids_ok_def)
  next
    case (Some t)
    let ?st1 = "chan_upd st (ichan st) (\<lambda>c. c\<lparr>pids := (pids c)(ipid := atoi t)\<rparr>)"
    from "1.prems"(1) Some have ok: "\<not> (atoi t < 10 \<or> atoi t \<ge> 8193)" "\<not> ipid + 1 \<ge> int (MAX_PIDS K)"
      and rec: "read_pids K (snd (strtok (CONFIG_FILE_SEPARATOR K) cur)) (ipid + 1) ?st1 = Cont s"
      by (auto simp: read_pids.simps [of K cur ipid st] Let_def split: if_splits)
    have a: "\<forall>i. i \<noteq> ichan ?st1 \<longrightarrow> pids_ok (chan_get ?st1 i)"
      using "1.prems"(2) by (simp add: chan_get_chan_upd ichan_chan_upd)
    have b: "\<forall>j. 0 \<le> j \<and> j < ipid + 1 \<longrightarrow> pid_accepted (pids (chan_get ?st1 (ichan ?st1)) j)"
      using "1.prems"(3) ok(1) by (auto simp: chan_get_chan_upd ichan_chan_upd pid_accepted_def)
    from "1.IH" [OF Some refl ok rec a b] show ?thesis .
  qed
qed

lemma read_pids_tokens:
  "read_pids K cur ipid st = Cont s \<Longrightarrow>
   t \<in> set (tokens (CONFIG_FILE_SEPARATOR K) cur) \<Longrightarrow> pid_accepted (atoi t)"
proof (induction K cur ipid st rule: read_pids.induct)
  case (1 K cur ipid st)
  show ?case
  proof (cases "fst (strtok (CONFIG_FILE_SEPARATOR K) cur)")
    case None
    with "1.prems"(2) show ?thesis by (simp add: tokens.simps [of _ cur])
  next
    case (Some u)
    let ?st1 = "chan_upd st (ichan st) (\<lambda>c. c\<lparr>pids := (pids c)(ipid := atoi u)\<rparr>)"
    from "1.prems"(1) Some have ok: "\<not> (atoi u < 10 \<or> atoi u \<ge> 8193)" "\<not> ipid + 1 \<ge> int (MAX_PIDS K)"
      and rec: "read_pids K (snd (strtok (CONFIG_FILE_SEPARATOR K) cur)) (ipid + 1) ?st1 = Cont s"
      by (auto simp: read_pids.simps [of K cur ipid st] Let_def split: if_splits)
    from "1.prems"(2) Some have
      "t = u \<or> t \<in> set (tokens (CONFIG_FILE_SEPARATOR K) (snd (strtok (CONFIG_FILE_SEPARATOR K) cur)))"
      by (simp add: tokens.simps [of _ cur])
    then show ?thesis
    proof
      assume "t = u"
      with ok(1) show ?thesis by (simp add: pid_accepted_def)
    next
      assume "t \<in> set (tokens (CONFIG_FILE_SEPARATOR K) (snd (strtok (CONFIG_FILE_SEPARATOR K) cur)))"
      from "1.IH" [OF Some refl ok rec this] show ?thesis .
    qed
  qed
qed

lemma pids_option:
  "own_option K st ''pids'' cur =
     Some (if ichan st < 0
           then Halt (Exited (ERROR_CONF K))
                  (log_message MSG_ERROR
                     ''pids : You have to start a channel first (using new_channel)'' st)
           else read_pids K cur 0
                  (chan_upd st (ichan st) (\<lambda>c. c\<lparr>pid_f := F_USER K, pmt_rewrite := 1\<rparr>)))"
  by (simp add: own_option_def)

lemma pids_line_fatal:
  assumes "t \<in> set (tokens (CONFIG_FILE_SEPARATOR K) cur)" and "\<not> pid_accepted (atoi t)"
  shows "\<exists>s. own_option K st ''pids'' cur = Some (Halt (Exited (ERROR_CONF K)) s)"
proof (cases "ichan st < 0")
  case True
  then show ?thesis by (simp add: pids_option)
next
  case False
  let ?st1 = "chan_upd st (ichan st) (\<lambda>c. c\<lparr>pid_f := F_USER K, pmt_rewrite := 1\<rparr>)"
  show ?thesis
  proof (cases "read_pids K cur 0 ?st1")
    case (Halt out s)
    with read_pids_Halt [OF Halt] False show ?thesis by (simp add: pids_option)
  next
    case (Cont s)
    from read_pids_tokens [OF Cont assms(1)] assms(2) show ?thesis by simp
  qed
qed

lemma own_option_keeps_pids:
  assumes "own_option K st kw cur = Some (Cont s)" and "kw \<noteq> ''pids''"
  shows "pids (chan_get s i) = pids (chan_get st i) \<and>
         num_pids (chan_get s i) = num_pids (chan_get st i)"
  using assms unfolding own_option_def with_int_def
  by (auto simp: Let_def chan_get_def chan_upd_def log_message_def add_event_def
      split: if_splits option.splits)

lemma own_option_pids_ok:
  assumes "own_option K st kw cur = Some (Cont s)" and "all_pids_ok st"
  shows "all_pids_ok s"
proof (cases "kw = ''pids''")
  case True
  let ?st1 = "chan_upd st (ichan st) (\<lambda>c. c\<lparr>pid_f := F_USER K, pmt_rewrite := 1\<rparr>)"
  from assms(1) True have r: "read_pids K cur 0 ?st1 = Cont s"
    by (simp add: pids_option split: if_splits)
  have a: "\<forall>i. i \<noteq> ichan ?st1 \<longrightarrow> pids_ok (chan_get ?st1 i)"
    using assms(2) by (simp add: all_pids_ok_def chan_get_chan_upd ichan_chan_upd)
  have b: "\<forall>j. 0 \<le> j \<and> j < 0 \<longrightarrow> pid_accepted (pids (chan_get ?st1 (ichan ?st1)) j)" by auto
  from read_pids_ok [OF r a b] show ?thesis by (simp add: all_pids_ok_def)
next
  case False
  from own_option_keeps_pids [OF assms(1) False] assms(2) show ?thesis
    by (simp add: all_pids_ok_def pids_ok_def)
qed


lemma all_pids_ok_cong:
  "channels s = channels st \<Longrightarrow> all_pids_ok st \<Longrightarrow> all_pids_ok s"
  by (simp add: all_pids_ok_def chan_get_def)

lemma config_line_pids_ok:
  assumes "config_line K rs n raw st = Cont s" and "all_pids_ok st"
  shows "all_pids_ok s"
proof -
  from config_line_Cont [OF assms(1)] show ?thesis
  proof (elim disjE exE conjE)
    assume "s = st"
    with assms(2) show ?thesis by simp
  next
    fix b assume "line_end K (st\<lparr>blk := b\<rparr>) = Cont s"
    from line_end_Cont [OF this] have "channels s = channels st" by simp
    from all_pids_ok_cong [OF this assms(2)] show ?thesis .
  next
    fix b assume "s = st\<lparr>blk := b\<rparr>"
    then have "channels s = channels st" by simp
    from all_pids_ok_cong [OF this assms(2)] show ?thesis .
  next
    fix b assume "s = log_message MSG_WARN ''Config issue : unknow symbol : %s'' (st\<lparr>blk := b\<rparr>)"
    then have "channels s = channels st" by (simp add: log_message_def add_event_def)
    from all_pids_ok_cong [OF this assms(2)] show ?thesis .
  next
    fix b kw cur s'
    assume o: "own_option K (st\<lparr>blk := b\<rparr>) kw cur = Some (Cont s')"
      and l: "line_end K s' = Cont s"
    have "channels (st\<lparr>blk := b\<rparr>) = channels st" by simp
    from all_pids_ok_cong [OF this assms(2)] have "all_pids_ok (st\<lparr>blk := b\<rparr>)" .
    from own_option_pids_ok [OF o this] have p: "all_pids_ok s'" .
    from line_end_Cont [OF l] have "channels s = channels s'" by simp
    from all_pids_ok_cong [OF this p] show ?thesis .
  qed
qed

lemma read_config_pids_ok:
  "read_config K rs n ls st = Cont s \<Longrightarrow> all_pids_ok st \<Longrightarrow> all_pids_ok s"
proof (induction ls arbitrary: n st)
  case Nil
  then show ?case by simp
next
  case (Cons l ls)
  from Cons.prems(1) obtain s1 where a: "config_line K rs n l st = Cont s1"
    and b: "read_config K rs (Suc n) ls s1 = Cont s"
    by (auto split: run.splits)
  from config_line_pids_ok [OF a Cons.prems(2)] Cons.IH [OF b] show ?case by blast
qed

lemma configuration_pids_ok:
  assumes "configuration K E rs st = Cont s" and "all_pids_ok st"
  shows "all_pids_ok s"
proof -
  from configuration_Cont [OF assms(1)] show ?thesis
  proof (elim disjE exE conjE)
    assume "s = st"
    with assms(2) show ?thesis by simp
  next
    fix t s'
    assume r: "read_config K rs 0 (conf_lines E) (st\<lparr>trace := t\<rparr>) = Cont s'"
      and e: "s = s'\<lparr>trace := trace s' @ [Fclose Conf_read, Free_conf_filename]\<rparr>"
    have "channels (st\<lparr>trace := t\<rparr>) = channels st" by simp
    from all_pids_ok_cong [OF this assms(2)] have "all_pids_ok (st\<lparr>trace := t\<rparr>)" .
    from read_config_pids_ok [OF r this] have p: "all_pids_ok s'" .
    from e have "channels s = channels s'" by simp
    from all_pids_ok_cong [OF this p] show ?thesis .
  qed
qed

lemma prelude_channels: "prelude K E st = Cont s \<Longrightarrow> channels s = channels st"
  by (auto simp: prelude_def Let_def state_defs split: if_splits)

lemma option_defaults_channels: "channels (option_defaults st) = channels st"
  by (simp add: option_defaults_def Let_def state_defs)

lemma buffer_limits_channels: "channels (buffer_limits st) = channels st"
  by (simp add: buffer_limits_def Let_def state_defs)

lemma templates_channels: "channels (templates K E st) = channels st"
  by (simp add: templates_def Let_def state_defs)

lemma multicast_checks_channels: "channels (multicast_checks st) = channels st"
  by (simp add: multicast_checks_def Let_def state_defs)

lemma list_files_channels: "channels (list_files E st) = channels st"
  by (simp add: list_files_def create_list_def Let_def state_defs)

lemma signals_channels: "channels (signals E st) = channels st"
  by (simp add: signals_def install_def Let_def state_defs)

lemma tuning_channels: "tuning K E st = Halt out s \<Longrightarrow> channels s = channels st"
  by (auto simp: tuning_def close_goto_def Let_def state_defs split: if_splits run.splits)

lemma startup_channels:
  assumes "startup K E st = Halt out s"
  shows "channels s = channels st"
proof -
  let ?st1 = "multicast_checks (templates K E (buffer_limits (option_defaults st)))"
  have c1: "channels ?st1 = channels st"
    by (simp only: multicast_checks_channels templates_channels buffer_limits_channels
        option_defaults_channels)
  show ?thesis
  proof (cases "multicast (blk ?st1) = 0 \<and> unicast (blk ?st1) = 0")
    case True
    with assms have "s = add_event Mumudvb_close
        (add_event (Set_interrupted (push_bit 8 (ERROR_CONF K)))
           (log_message MSG_ERROR
              ''NO Multicast AND NO unicast. No data can be send :(, Exciting ....'' ?st1))"
      by (simp add: startup_def Let_def close_goto_def)
    then have "channels s = channels ?st1" by (simp add: state_defs)
    with c1 show ?thesis by simp
  next
    case False
    with assms have t: "tuning K E (signals E (list_files E ?st1)) = Halt out s"
      by (auto simp: startup_def Let_def)
    from tuning_channels [OF t] show ?thesis
      by (simp only: signals_channels list_files_channels c1)
  qed
qed

lemma declare_one:
  assumes "fst (strtok (CONFIG_FILE_SEPARATOR K) (chomp raw)) = Some ''new_channel''"
      and "\<not> is_comment (chomp raw)"
      and "ichan st + 1 \<le> int (MAX_CHANNELS K)"
  shows "\<exists>s. config_line K [] n raw st = Cont s \<and> ichan s = ichan st + 1 \<and>
             (\<exists>c. channels s (ichan st + 1) = Some c \<and> channel_ready c = ALMOST_READY K)"
proof -
  let ?new = "log_message MSG_INFO ''New channel, current number %d''
               (chan_upd ((after_readers [] n ''new_channel'' st)\<lparr>ichan := ichan st + 1\<rparr>)
                  (ichan st + 1) (\<lambda>c. c\<lparr>channel_ready := ALMOST_READY K\<rparr>))"
  have r: "fst (run_readers [] n ''new_channel'' (blk st)) = 0" by simp
  have c: "config_line K [] n raw st = line_end K ?new"
    by (rule config_line_new_channel [OF assms(1,2) r])
  have i: "ichan ?new = ichan st + 1" by (simp add: state_defs after_readers_def)
  have "line_end K ?new = Cont (?new\<lparr>curr_channel_old := ichan ?new\<rparr>)"
    by (rule line_end_le) (simp only: i assms(3))
  with c have "config_line K [] n raw st = Cont (?new\<lparr>curr_channel_old := ichan ?new\<rparr>)" by simp
  moreover have "ichan (?new\<lparr>curr_channel_old := ichan ?new\<rparr>) = ichan st + 1" using i by simp
  moreover have "\<exists>c. channels (?new\<lparr>curr_channel_old := ichan ?new\<rparr>) (ichan st + 1) = Some c \<and>
                    channel_ready c = ALMOST_READY K"
    by (simp add: state_defs after_readers_def)
  ultimately show ?thesis by blast
qed

lemma declare_many:
  assumes "fst (strtok (CONFIG_FILE_SEPARATOR K) (chomp raw)) = Some ''new_channel''"
      and "\<not> is_comment (chomp raw)"
  shows "ichan st + int k \<le> int (MAX_CHANNELS K) \<Longrightarrow>
         \<exists>s. read_config K [] n (replicate k raw) st = Cont s \<and> ichan s = ichan st + int k \<and>
             (0 < k \<longrightarrow> (\<exists>c. channels s (ichan s) = Some c \<and> channel_ready c = ALMOST_READY K))"
proof (induction k arbitrary: st n)
  case 0
  then show ?case by simp
next
  case (Suc k)
  from Suc.prems have le: "ichan st + 1 \<le> int (MAX_CHANNELS K)" by simp
  from declare_one [OF assms le, of n] obtain s1 c1 where
    s1: "config_line K [] n raw st = Cont s1" "ichan s1 = ichan st + 1"
        "channels s1 (ichan st + 1) = Some c1" "channel_ready c1 = ALMOST_READY K"
    by blast
  from Suc.prems s1(2) have "ichan s1 + int k \<le> int (MAX_CHANNELS K)" by simp
  from Suc.IH [OF this, of "Suc n"] obtain s where
    s: "read_config K [] (Suc n) (replicate k raw) s1 = Cont s" "ichan s = ichan s1 + int k"
       "0 < k \<longrightarrow> (\<exists>c. channels s (ichan s) = Some c \<and> channel_ready c = ALMOST_READY K)"
    by blast
  have a: "read_config K [] n (replicate (Suc k) raw) st = Cont s" using s1(1) s(1) by simp
  have b: "ichan s = ichan st + int (Suc k)" using s(2) s1(2) by simp
  have "\<exists>c. channels s (ichan s) = Some c \<and> channel_ready c = ALMOST_READY K"
  proof (cases k)
    case 0
    with s(1) have "s = s1" by simp
    with s1 show ?thesis by simp
  next
    case (Suc j)
    with s(3) show ?thesis by simp
  qed
  with a b show ?case by blast
qed

lemma quiet_cong: "trace s = trace st \<Longrightarrow> quiet st \<Longrightarrow> quiet s"
  by (simp add: quiet_def)

lemma quiet_log: "quiet (log_message l t st) = quiet st"
  by (simp add: quiet_def log_message_def add_event_def)

lemma read_pids_quiet:
  "read_pids K cur ipid st = Cont s \<Longrightarrow> quiet st \<Longrightarrow> quiet s"
proof (induction K cur ipid st rule: read_pids.induct)
  case (1 K cur ipid st)
  show ?case
  proof (cases "fst (strtok (CONFIG_FILE_SEPARATOR K) cur)")
    case None
    with "1.prems"(1) have "s = chan_upd st (ichan st) (\<lambda>c. c\<lparr>num_pids := ipid\<rparr>)"
      by (simp add: read_pids.simps)
    then have "trace s = trace st" by (simp add: chan_upd_def)
    from quiet_cong [OF this "1.prems"(2)] show ?thesis .
  next
    case (Some t)
    let ?st1 = "chan_upd st (ichan st) (\<lambda>c. c\<lparr>pids := (pids c)(ipid := atoi t)\<rparr>)"
    from "1.prems"(1) Some have ok: "\<not> (atoi t < 10 \<or> atoi t \<ge> 8193)" "\<not> ipid + 1 \<ge> int (MAX_PIDS K)"
      and rec: "read_pids K (snd (strtok (CONFIG_FILE_SEPARATOR K) cur)) (ipid + 1) ?st1 = Cont s"
      by (auto simp: read_pids.simps [of K cur ipid st] Let_def split: if_splits)
    have "trace ?st1 = trace st" by (simp add: chan_upd_def)
    from quiet_cong [OF this "1.prems"(2)] have "quiet ?st1" .
    from "1.IH" [OF Some refl ok rec this] show ?thesis .
  qed
qed

lemma own_option_quiet:
  assumes "own_option K st kw cur = Some (Cont s)" and "quiet st"
  shows "quiet s"
proof (cases "kw = ''pids''")
  case True
  let ?st1 = "chan_upd st (ichan st) (\<lambda>c. c\<lparr>pid_f := F_USER K, pmt_rewrite := 1\<rparr>)"
  from assms(1) True have r: "read_pids K cur 0 ?st1 = Cont s"
    by (simp add: pids_option split: if_splits)
  have "trace ?st1 = trace st" by (simp add: chan_upd_def)
  from read_pids_quiet [OF r quiet_cong [OF this assms(2)]] show ?thesis .
next
  case False
  with assms show ?thesis
    unfolding own_option_def with_int_def quiet_def
    by (auto simp: Let_def chan_upd_def log_message_def add_event_def
        split: if_splits option.splits)
qed

lemma config_line_quiet:
  assumes "config_line K rs n raw st = Cont s" and "quiet st"
  shows "quiet s"
proof -
  from config_line_Cont [OF assms(1)] show ?thesis
  proof (elim disjE exE conjE)
    assume "s = st"
    with assms(2) show ?thesis by simp
  next
    fix b assume "line_end K (st\<lparr>blk := b\<rparr>) = Cont s"
    from line_end_Cont [OF this] have "trace s = trace st" by simp
    from quiet_cong [OF this assms(2)] show ?thesis .
  next
    fix b assume "s = st\<lparr>blk := b\<rparr>"
    then have "trace s = trace st" by simp
    from quiet_cong [OF this assms(2)] show ?thesis .
  next
    fix b assume "s = log_message MSG_WARN ''Config issue : unknow symbol : %s'' (st\<lparr>blk := b\<rparr>)"
    moreover have "quiet (st\<lparr>blk := b\<rparr>)" using assms(2) by (simp add: quiet_def)
    ultimately show ?thesis by (simp add: quiet_log)
  next
    fix b kw cur s'
    assume o: "own_option K (st\<lparr>blk := b\<rparr>) kw cur = Some (Cont s')"
      and l: "line_end K s' = Cont s"
    have "quiet (st\<lparr>blk := b\<rparr>)" using assms(2) by (simp add: quiet_def)
    from own_option_quiet [OF o this] have p: "quiet s'" .
    from line_end_Cont [OF l] have "trace s = trace s'" by simp
    from quiet_cong [OF this p] show ?thesis .
  qed
qed

lemma read_config_quiet:
  "read_config K rs n ls st = Cont s \<Longrightarrow> quiet st \<Longrightarrow> quiet s"
proof (induction ls arbitrary: n st)
  case Nil
  then show ?case by simp
next
  case (Cons l ls)
  from Cons.prems(1) obtain s1 where a: "config_line K rs n l st = Cont s1"
    and b: "read_config K rs (Suc n) ls s1 = Cont s"
    by (auto split: run.splits)
  from config_line_quiet [OF a Cons.prems(2)] Cons.IH [OF b] show ?case by blast
qed

lemma configuration_quiet:
  assumes "configuration K E rs st = Cont s" and "quiet st"
  shows "quiet s"
proof (cases "conf_given E")
  case False
  with assms show ?thesis by (simp add: configuration_def)
next
  case True
  let ?t = "trace st @ Fopen Conf_display True # Log MSG_FLOOD ''==== Configuration file ===='' #
              map (\<lambda>l. Log MSG_FLOOD ''%03d %s'') (conf_lines E) @
              [Log MSG_FLOOD ''============ done ==========='', Fclose Conf_display,
               Fopen Conf_read True]"
  from True assms(1) obtain s' where r: "read_config K rs 0 (conf_lines E) (st\<lparr>trace := ?t\<rparr>) = Cont s'"
    and e: "s = s'\<lparr>trace := trace s' @ [Fclose Conf_read, Free_conf_filename]\<rparr>"
    by (auto simp: configuration_def Let_def state_defs split: if_splits run.splits)
  have "quiet (st\<lparr>trace := ?t\<rparr>)" using assms(2) by (auto simp: quiet_def)
  from read_config_quiet [OF r this] e show ?thesis by (simp add: quiet_def)
qed

lemma prelude_quiet: "prelude K E st = Cont s \<Longrightarrow> quiet st \<Longrightarrow> quiet s"
  by (auto simp: prelude_def Let_def state_defs quiet_def split: if_splits)

lemma option_defaults_quiet: "quiet (option_defaults st) = quiet st"
  by (simp add: option_defaults_def Let_def state_defs quiet_def)

lemma buffer_limits_quiet: "quiet (buffer_limits st) = quiet st"
  by (simp add: buffer_limits_def Let_def state_defs quiet_def)

lemma templates_quiet: "quiet (templates K E st) = quiet st"
  by (simp add: templates_def Let_def state_defs quiet_def)

lemma multicast_checks_quiet: "quiet (multicast_checks st) = quiet st"
  by (simp add: multicast_checks_def Let_def state_defs quiet_def)

lemma option_defaults_sinks: "sinks (option_defaults st) = sinks st"
  by (simp add: option_defaults_def Let_def state_defs sinks_def)

lemma buffer_limits_sinks: "sinks (buffer_limits st) = sinks st"
  by (simp add: buffer_limits_def Let_def state_defs sinks_def)

lemma templates_sinks: "sinks (templates K E st) = sinks st"
  by (simp add: templates_def Let_def state_defs sinks_def)

lemma multicast_checks_sinks:
  "sinks (multicast_checks st) =
     (ttl (blk st), (if ttl (blk st) = 0 then 0 else multicast (blk st)), unicast (blk st),
      read_file_path (blk st))"
  by (simp add: multicast_checks_def Let_def state_defs sinks_def)

lemma list_files_sinks: "sinks (list_files E st) = sinks st"
  by (simp add: list_files_def create_list_def Let_def state_defs sinks_def)

lemma signals_sinks: "sinks (signals E st) = sinks st"
  by (simp add: signals_def install_def Let_def state_defs sinks_def)

lemma main_startup:
  "prelude K E (initial_state K E) = Cont st1 \<Longrightarrow> configuration K E rs st1 = Cont st2 \<Longrightarrow>
   main K E rs = startup K E st2"
  by (simp add: main_def)

lemma startup_no_sink:
  assumes "ttl (blk st) = 0 \<or> multicast (blk st) = 0" and "unicast (blk st) = 0"
  shows "startup K E st =
           Halt Returned_close
             (add_event Mumudvb_close
                (add_event (Set_interrupted (push_bit 8 (ERROR_CONF K)))
                   (log_message MSG_ERROR
                      ''NO Multicast AND NO unicast. No data can be send :(, Exciting ....''
                      (multicast_checks (templates K E (buffer_limits (option_defaults st)))))))"
proof -
  let ?st0 = "templates K E (buffer_limits (option_defaults st))"
  have "sinks ?st0 = sinks st"
    by (simp only: templates_sinks buffer_limits_sinks option_defaults_sinks)
  with assms multicast_checks_sinks [of ?st0]
  have "multicast (blk (multicast_checks ?st0)) = 0 \<and> unicast (blk (multicast_checks ?st0)) = 0"
    by (auto simp: sinks_def)
  then show ?thesis by (simp add: startup_def Let_def close_goto_def)
qed

lemma startup_sink:
  assumes "(ttl (blk st) \<noteq> 0 \<and> multicast (blk st) \<noteq> 0) \<or> unicast (blk st) \<noteq> 0"
  shows "startup K E st =
           tuning K E (signals E (list_files E
             (multicast_checks (templates K E (buffer_limits (option_defaults st))))))"
proof -
  let ?st0 = "templates K E (buffer_limits (option_defaults st))"
  have "sinks ?st0 = sinks st"
    by (simp only: templates_sinks buffer_limits_sinks option_defaults_sinks)
  with assms multicast_checks_sinks [of ?st0]
  have "\<not> (multicast (blk (multicast_checks ?st0)) = 0 \<and> unicast (blk (multicast_checks ?st0)) = 0)"
    by (auto simp: sinks_def)
  then show ?thesis by (auto simp: startup_def Let_def)
qed

lemma no_sink_env_start:
  "prelude sample_params no_sink_env (initial_state sample_params no_sink_env) =
     Cont (add_event Print_info (initial_state sample_params no_sink_env)) \<and>
   configuration sample_params no_sink_env []
     (add_event Print_info (initial_state sample_params no_sink_env)) =
     Cont (add_event Print_info (initial_state sample_params no_sink_env))"
  by (simp add: prelude_def configuration_def no_sink_env_def sample_env_def Let_def)

lemma option_defaults_wsc: "write_streamed_channels (option_defaults st) = write_streamed_channels st"
  by (simp add: option_defaults_def Let_def state_defs)

lemma buffer_limits_wsc: "write_streamed_channels (buffer_limits st) = write_streamed_channels st"
  by (simp add: buffer_limits_def Let_def state_defs)

lemma templates_wsc: "write_streamed_channels (templates K E st) = write_streamed_channels st"
  by (simp add: templates_def Let_def state_defs)

lemma multicast_checks_wsc: "write_streamed_channels (multicast_checks st) = write_streamed_channels st"
  by (simp add: multicast_checks_def Let_def state_defs)

lemma list_files_lists:
  "Fopen Streamed_list (fopen_ok E Streamed_list) \<in> set (trace (list_files E st)) \<and>
   Fopen Not_streamed_list (fopen_ok E Not_streamed_list) \<in> set (trace (list_files E st)) \<and>
   (fopen_ok E Streamed_list \<and> fopen_ok E Not_streamed_list \<longrightarrow>
      write_streamed_channels (list_files E st) = write_streamed_channels st) \<and>
   (\<not> fopen_ok E Streamed_list \<or> \<not> fopen_ok E Not_streamed_list \<longrightarrow>
      write_streamed_channels (list_files E st) = 0 \<and>
      Log MSG_WARN ''Can't create %s: %s'' \<in> set (trace (list_files E st)))"
  by (simp add: list_files_def create_list_def Let_def state_defs)

lemma signals_keeps:
  "set (trace st) \<subseteq> set (trace (signals E st)) \<and>
   write_streamed_channels (signals E st) = write_streamed_channels st"
  by (auto simp: signals_def install_def Let_def state_defs)

lemma tuning_keeps:
  "set (trace st) \<subseteq> set (trace (final_state (tuning K E st))) \<and>
   write_streamed_channels (final_state (tuning K E st)) = write_streamed_channels st \<and>
   Open_fe (read_file_path (blk st) \<noteq> []) \<in> set (trace (final_state (tuning K E st)))"
  by (auto simp: tuning_def Let_def close_goto_def state_defs final_state_def)

lemma tuning_tuned:
  assumes "0 < open_fe_ret E" and "read_file_path (blk st) \<noteq> [] \<or> 0 \<le> tune_it_ret E"
      and "no_daemon E \<noteq> 0 \<or> fopen_ok E Pid_file"
  shows "\<exists>s. tuning K E st = Halt Returned_close s \<and> card_tuned (blk s) = 1 \<and>
             last_events 4 s =
               [Log MSG_INFO ''Card %d, tuner %d tuned'', Close_card_fd,
                Log MSG_INFO ''The pid will be written in %s'', Mumudvb_close]"
  using assms by (auto simp: tuning_def Let_def close_goto_def state_defs last_events_def)

lemma no_list_env_start:
  "prelude sample_params no_list_env (initial_state sample_params no_list_env) =
     Cont (add_event Print_info (initial_state sample_params no_list_env)) \<and>
   configuration sample_params no_list_env []
     (add_event Print_info (initial_state sample_params no_list_env)) =
     Cont (add_event Print_info (initial_state sample_params no_list_env))"
  by (simp add: prelude_def configuration_def no_list_env_def sample_env_def Let_def)

lemma plain_env_start:
  "prelude sample_params plain_env (initial_state sample_params plain_env) =
     Cont (add_event Print_info (initial_state sample_params plain_env)) \<and>
   configuration sample_params plain_env []
     (add_event Print_info (initial_state sample_params plain_env)) =
     Cont (add_event Print_info (initial_state sample_params plain_env))"
  by (simp add: prelude_def configuration_def plain_env_def sample_env_def Let_def)

section \<open>The signal handler's policy\<close>

text \<open>
  C4, as stated, fails: an alarm that arrives while the card is not tuned does not end
  the process with the tuning error when a shutdown is already pending
  (\<^verbatim>\<open>get_interrupted()\<close> is not 0). The first test of the handler is then false, and the
  alarm falls through to the last branch, as any other signal would.
\<close>

theorem alarm_while_interrupted_does_not_exit:
  "SignalHandler sample_params SIGALRM (sample_sig 2 (Some 0)) =
     Cont \<lparr>interrupted = 2, card_tuned_ptr = Some 0, received_signal = 0,
           sig_trace = [Log MSG_ERROR ''Caught signal %d'', Set_interrupted 14, Install_handler 14]\<rparr>"
  by (simp add: SignalHandler_def sample_sig_def sig_event_def signal_numbers)

text \<open>
  C4, amended: the policy of \<^verbatim>\<open>SignalHandler\<close>. With no shutdown pending, SIGALRM ends
  the process with \<^verbatim>\<open>ERROR_TUNE\<close> when the card is not tuned, and otherwise only
  re-installs the handler. SIGUSR1, SIGUSR2 and SIGHUP are recorded in
  \<^verbatim>\<open>received_signal\<close>. SIGPIPE changes nothing. Every other signal, and SIGALRM while a
  shutdown is pending, is logged and passed to \<^verbatim>\<open>set_interrupted\<close>. In every case but
  the exit the handler is installed again.
\<close>

theorem signal_policy:
  "(signum = SIGALRM \<and> interrupted s = 0 \<and> card_tuned_ptr s = Some 0 \<longrightarrow>
      SignalHandler K signum s =
        Halt (Exited (ERROR_TUNE K))
          (sig_event (Log MSG_INFO ''Card not tuned after timeout - exiting'') s)) \<and>
   (signum = SIGALRM \<and> interrupted s = 0 \<and> card_tuned_ptr s \<noteq> Some 0 \<longrightarrow>
      SignalHandler K signum s = Cont (sig_event (Install_handler signum) s)) \<and>
   (signum = SIGUSR1 \<or> signum = SIGUSR2 \<or> signum = SIGHUP \<longrightarrow>
      SignalHandler K signum s =
        Cont (sig_event (Install_handler signum) (s\<lparr>received_signal := signum\<rparr>))) \<and>
   (signum = SIGPIPE \<longrightarrow>
      SignalHandler K signum s = Cont (sig_event (Install_handler signum) s)) \<and>
   (signum \<noteq> SIGUSR1 \<and> signum \<noteq> SIGUSR2 \<and> signum \<noteq> SIGHUP \<and> signum \<noteq> SIGPIPE \<and>
    (signum \<noteq> SIGALRM \<or> interrupted s \<noteq> 0) \<longrightarrow>
      SignalHandler K signum s =
        Cont (sig_event (Install_handler signum)
                (sig_event (Set_interrupted signum)
                   (sig_event (Log MSG_ERROR ''Caught signal %d'') s))))"
  by (auto simp: SignalHandler_def signal_numbers split: option.splits)

text \<open>The five cases of the policy, each at a concrete signal and state.\<close>

theorem signal_policy_witness:
  "SignalHandler sample_params SIGALRM (sample_sig 0 (Some 0)) =
     Halt (Exited 7)
       (sig_event (Log MSG_INFO ''Card not tuned after timeout - exiting'')
          (sample_sig 0 (Some 0))) \<and>
   SignalHandler sample_params SIGALRM (sample_sig 0 (Some 1)) =
     Cont (sig_event (Install_handler SIGALRM) (sample_sig 0 (Some 1))) \<and>
   SignalHandler sample_params SIGUSR1 (sample_sig 0 (Some 0)) =
     Cont (sig_event (Install_handler SIGUSR1)
             ((sample_sig 0 (Some 0))\<lparr>received_signal := SIGUSR1\<rparr>)) \<and>
   SignalHandler sample_params SIGPIPE (sample_sig 0 (Some 0)) =
     Cont (sig_event (Install_handler SIGPIPE) (sample_sig 0 (Some 0))) \<and>
   SignalHandler sample_params 15 (sample_sig 0 (Some 0)) =
     Cont (sig_event (Install_handler 15)
             (sig_event (Set_interrupted 15)
                (sig_event (Log MSG_ERROR ''Caught signal %d'') (sample_sig 0 (Some 0)))))"
  using signal_policy [of SIGALRM "sample_sig 0 (Some 0)" sample_params]
    signal_policy [of SIGALRM "sample_sig 0 (Some 1)" sample_params]
    signal_policy [of SIGUSR1 "sample_sig 0 (Some 0)" sample_params]
    signal_policy [of SIGPIPE "sample_sig 0 (Some 0)" sample_params]
    signal_policy [of 15 "sample_sig 0 (Some 0)" sample_params]
  by (simp add: sample_sig_def sample_params_def signal_numbers)

section \<open>The tuning timeout\<close>

lemma unarmed_cong: "trace s = trace st \<Longrightarrow> unarmed st \<Longrightarrow> unarmed s"
  by (simp add: unarmed_def)

lemma read_pids_unarmed:
  "read_pids K cur ipid st = Cont s \<Longrightarrow> unarmed st \<Longrightarrow> unarmed s"
proof (induction K cur ipid st rule: read_pids.induct)
  case (1 K cur ipid st)
  show ?case
  proof (cases "fst (strtok (CONFIG_FILE_SEPARATOR K) cur)")
    case None
    with "1.prems"(1) have "s = chan_upd st (ichan st) (\<lambda>c. c\<lparr>num_pids := ipid\<rparr>)"
      by (simp add: read_pids.simps)
    then have "trace s = trace st" by (simp add: chan_upd_def)
    from unarmed_cong [OF this "1.prems"(2)] show ?thesis .
  next
    case (Some t)
    let ?st1 = "chan_upd st (ichan st) (\<lambda>c. c\<lparr>pids := (pids c)(ipid := atoi t)\<rparr>)"
    from "1.prems"(1) Some have ok: "\<not> (atoi t < 10 \<or> atoi t \<ge> 8193)" "\<not> ipid + 1 \<ge> int (MAX_PIDS K)"
      and rec: "read_pids K (snd (strtok (CONFIG_FILE_SEPARATOR K) cur)) (ipid + 1) ?st1 = Cont s"
      by (auto simp: read_pids.simps [of K cur ipid st] Let_def split: if_splits)
    have "trace ?st1 = trace st" by (simp add: chan_upd_def)
    from unarmed_cong [OF this "1.prems"(2)] have "unarmed ?st1" .
    from "1.IH" [OF Some refl ok rec this] show ?thesis .
  qed
qed

lemma own_option_unarmed:
  assumes "own_option K st kw cur = Some (Cont s)" and "unarmed st"
  shows "unarmed s"
proof (cases "kw = ''pids''")
  case True
  let ?st1 = "chan_upd st (ichan st) (\<lambda>c. c\<lparr>pid_f := F_USER K, pmt_rewrite := 1\<rparr>)"
  from assms(1) True have r: "read_pids K cur 0 ?st1 = Cont s"
    by (simp add: pids_option split: if_splits)
  have "trace ?st1 = trace st" by (simp add: chan_upd_def)
  from read_pids_unarmed [OF r unarmed_cong [OF this assms(2)]] show ?thesis .
next
  case False
  with assms show ?thesis
    unfolding own_option_def with_int_def unarmed_def alarms_def
    by (auto simp: Let_def chan_upd_def log_message_def add_event_def
        split: if_splits option.splits)
qed

lemma config_line_unarmed:
  assumes "config_line K rs n raw st = Cont s" and "unarmed st"
  shows "unarmed s"
proof -
  from config_line_Cont [OF assms(1)] show ?thesis
  proof (elim disjE exE conjE)
    assume "s = st"
    with assms(2) show ?thesis by simp
  next
    fix b assume "line_end K (st\<lparr>blk := b\<rparr>) = Cont s"
    from line_end_Cont [OF this] have "trace s = trace st" by simp
    from unarmed_cong [OF this assms(2)] show ?thesis .
  next
    fix b assume "s = st\<lparr>blk := b\<rparr>"
    then have "trace s = trace st" by simp
    from unarmed_cong [OF this assms(2)] show ?thesis .
  next
    fix b assume "s = log_message MSG_WARN ''Config issue : unknow symbol : %s'' (st\<lparr>blk := b\<rparr>)"
    with assms(2) show ?thesis
      by (simp add: unarmed_def alarms_def log_message_def add_event_def)
  next
    fix b kw cur s'
    assume o: "own_option K (st\<lparr>blk := b\<rparr>) kw cur = Some (Cont s')"
      and l: "line_end K s' = Cont s"
    have "unarmed (st\<lparr>blk := b\<rparr>)" using assms(2) by (simp add: unarmed_def)
    from own_option_unarmed [OF o this] have p: "unarmed s'" .
    from line_end_Cont [OF l] have "trace s = trace s'" by simp
    from unarmed_cong [OF this p] show ?thesis .
  qed
qed

lemma read_config_unarmed:
  "read_config K rs n ls st = Cont s \<Longrightarrow> unarmed st \<Longrightarrow> unarmed s"
proof (induction ls arbitrary: n st)
  case Nil
  then show ?case by simp
next
  case (Cons l ls)
  from Cons.prems(1) obtain s1 where a: "config_line K rs n l st = Cont s1"
    and b: "read_config K rs (Suc n) ls s1 = Cont s"
    by (auto split: run.splits)
  from config_line_unarmed [OF a Cons.prems(2)] Cons.IH [OF b] show ?case by blast
qed

lemma alarms_map_log: "alarms (map (\<lambda>l. Log lv tx) ls) = []"
  by (induction ls) (simp_all add: alarms_def)

lemma configuration_unarmed:
  assumes "configuration K E rs st = Cont s" and "unarmed st"
  shows "unarmed s"
proof (cases "conf_given E")
  case False
  with assms show ?thesis by (simp add: configuration_def)
next
  case True
  let ?t = "trace st @ Fopen Conf_display True # Log MSG_FLOOD ''==== Configuration file ===='' #
              map (\<lambda>l. Log MSG_FLOOD ''%03d %s'') (conf_lines E) @
              [Log MSG_FLOOD ''============ done ==========='', Fclose Conf_display,
               Fopen Conf_read True]"
  from True assms(1) obtain s' where r: "read_config K rs 0 (conf_lines E) (st\<lparr>trace := ?t\<rparr>) = Cont s'"
    and e: "s = s'\<lparr>trace := trace s' @ [Fclose Conf_read, Free_conf_filename]\<rparr>"
    by (auto simp: configuration_def Let_def state_defs split: if_splits run.splits)
  have "alarms ?t = []"
    using assms(2) alarms_map_log [of MSG_FLOOD "''%03d %s''" "conf_lines E"]
    by (simp add: unarmed_def alarms_def)
  then have "unarmed (st\<lparr>trace := ?t\<rparr>)" by (simp add: unarmed_def)
  from read_config_unarmed [OF r this] e show ?thesis by (simp add: unarmed_def alarms_def)
qed

lemma prelude_unarmed: "prelude K E st = Cont s \<Longrightarrow> unarmed st \<Longrightarrow> unarmed s"
  by (auto simp: prelude_def Let_def state_defs unarmed_def alarms_def split: if_splits)

lemma option_defaults_alarms:
  "alarms (trace (option_defaults st)) = alarms (trace st) \<and>
   tuning_timeout (blk (option_defaults st)) = tuning_timeout (blk st)"
  by (simp add: option_defaults_def Let_def state_defs alarms_def)

lemma buffer_limits_alarms:
  "alarms (trace (buffer_limits st)) = alarms (trace st) \<and>
   tuning_timeout (blk (buffer_limits st)) = tuning_timeout (blk st)"
  by (simp add: buffer_limits_def Let_def state_defs alarms_def)

lemma templates_alarms:
  "alarms (trace (templates K E st)) = alarms (trace st) \<and>
   tuning_timeout (blk (templates K E st)) = tuning_timeout (blk st)"
  by (simp add: templates_def Let_def state_defs alarms_def)

lemma multicast_checks_alarms:
  "alarms (trace (multicast_checks st)) = alarms (trace st) \<and>
   tuning_timeout (blk (multicast_checks st)) = tuning_timeout (blk st)"
  by (simp add: multicast_checks_def Let_def state_defs alarms_def)

lemma list_files_alarms:
  "alarms (trace (list_files E st)) = alarms (trace st) \<and>
   tuning_timeout (blk (list_files E st)) = tuning_timeout (blk st)"
  by (simp add: list_files_def create_list_def Let_def state_defs alarms_def)

lemma signals_alarms:
  "alarms (trace (signals E st)) =
     alarms (trace st) @
     (if tuning_timeout (blk st) \<noteq> 0 then [Alarm (tuning_timeout (blk st))] else [])"
  by (simp add: signals_def install_def Let_def state_defs alarms_def)

lemma tuning_alarms: "alarms (trace (final_state (tuning K E st))) = alarms (trace st)"
  by (auto simp: tuning_def Let_def close_goto_def state_defs final_state_def alarms_def)

lemma handler_alarms:
  "alarms (sig_trace (final_state (SignalHandler K signum s))) = alarms (sig_trace s)"
  by (simp add: SignalHandler_def sig_event_def final_state_def alarms_def split: option.splits)

lemma handler_on_alarm:
  "(interrupted s = 0 \<and> card_tuned_ptr s = Some 0 \<longrightarrow>
      run_outcome (SignalHandler K SIGALRM s) = Some (Exited (ERROR_TUNE K))) \<and>
   (interrupted s \<noteq> 0 \<or> card_tuned_ptr s \<noteq> Some 0 \<longrightarrow>
      run_outcome (SignalHandler K SIGALRM s) = None)"
  by (auto simp: SignalHandler_def run_outcome_def signal_numbers split: option.splits)

lemma startup_alarms:
  "alarms (trace (final_state (startup K E st))) =
     alarms (trace st) @
     (if ((ttl (blk st) \<noteq> 0 \<and> multicast (blk st) \<noteq> 0) \<or> unicast (blk st) \<noteq> 0) \<and>
         tuning_timeout (blk st) \<noteq> 0
      then [Alarm (tuning_timeout (blk st))] else [])"
proof -
  let ?st = "multicast_checks (templates K E (buffer_limits (option_defaults st)))"
  have a: "alarms (trace ?st) = alarms (trace st)"
    by (simp only: multicast_checks_alarms templates_alarms buffer_limits_alarms
        option_defaults_alarms)
  have t: "tuning_timeout (blk ?st) = tuning_timeout (blk st)"
    by (simp only: multicast_checks_alarms templates_alarms buffer_limits_alarms
        option_defaults_alarms)
  show ?thesis
  proof (cases "(ttl (blk st) \<noteq> 0 \<and> multicast (blk st) \<noteq> 0) \<or> unicast (blk st) \<noteq> 0")
    case True
    have "alarms (trace (final_state (startup K E st))) =
            alarms (trace (signals E (list_files E ?st)))"
      unfolding startup_sink [OF True] by (rule tuning_alarms)
    also have "\<dots> = alarms (trace ?st) @
        (if tuning_timeout (blk ?st) \<noteq> 0 then [Alarm (tuning_timeout (blk ?st))] else [])"
      by (simp only: signals_alarms list_files_alarms)
    finally show ?thesis using True a t by simp
  next
    case False
    then have n: "ttl (blk st) = 0 \<or> multicast (blk st) = 0" "unicast (blk st) = 0" by auto
    have "alarms (trace (final_state (startup K E st))) = alarms (trace ?st)"
      unfolding startup_no_sink [OF n] by (simp add: final_state_def state_defs alarms_def)
    with a False show ?thesis by auto
  qed
qed

text \<open>
  C7, as stated, fails: the timer is not periodic, and an alarm does not always end the
  process. The run of the sample file calls \<^verbatim>\<open>alarm\<close> once, with the timeout of 300
  seconds; the handler, on the alarm (here with the card tuned), makes no call of
  \<^verbatim>\<open>alarm\<close>, so that no second alarm follows the first; and an alarm that arrives
  while the card is not tuned but a shutdown is pending (the interrupt flag holds 1792,
  the value \<^verbatim>\<open>main\<close> sets when the frontend cannot be opened, with the sample
  constants) does not end the process.
\<close>

theorem alarm_is_not_periodic:
  "alarms (trace (final_state (main sample_params (sample_env sample_lines) []))) = [Alarm 300] \<and>
   alarms (sig_trace (final_state (SignalHandler sample_params SIGALRM (sample_sig 0 (Some 1))))) = [] \<and>
   run_outcome (SignalHandler sample_params SIGALRM (sample_sig 1792 (Some 0))) = None"
proof -
  from sample_run obtain s where
    m: "main sample_params (sample_env sample_lines) [] = Halt Returned_close s" and
    t: "trace s =
         [Print_info, Fopen Conf_display True, Log MSG_FLOOD ''==== Configuration file ===='',
          Log MSG_FLOOD ''%03d %s'', Log MSG_FLOOD ''%03d %s'', Log MSG_FLOOD ''%03d %s'',
          Log MSG_FLOOD ''%03d %s'', Log MSG_FLOOD ''%03d %s'',
          Log MSG_FLOOD ''============ done ==========='', Fclose Conf_display,
          Fopen Conf_read True, Log MSG_INFO ''New channel, current number %d'',
          Log MSG_WARN ''The buffer size MUST be >0, forced to 1 packet'',
          Log MSG_INFO ''Demuxing T2-MI stream on pid %d as input'',
          Fclose Conf_read, Free_conf_filename,
          Log MSG_WARN
            ''Warning : You set a DVR buffer size too low to accept T2-MI frames, I increase your dvr_buffer_size to 20 ...'',
          Log MSG_WARN
            ''Warning : You set a thread buffer size lower than your DVR buffer size, it's not possible to use such values. I increase your dvr_thread_buffer_size ...'',
          Expand_template ''card_dev_path'',
          Log MSG_INFO
            ''========== End of configuration, MuMuDVB version %s is starting =========='',
          Fopen Streamed_list True, Fclose Streamed_list,
          Fopen Not_streamed_list True, Fclose Not_streamed_list,
          Log MSG_INFO ''Streaming. Freq %f'',
          Install_handler 14, Install_handler 10, Install_handler 12, Install_handler 1,
          Alarm 300, Open_fe False, Tune_it,
          Log MSG_INFO ''Card %d, tuner %d tuned'', Close_card_fd,
          Log MSG_INFO ''The pid will be written in %s'', Mumudvb_close]"
    by blast
  have a: "alarms (trace (final_state (main sample_params (sample_env sample_lines) []))) = [Alarm 300]"
    unfolding m by (simp add: final_state_def alarms_def t)
  have b: "alarms (sig_trace (final_state (SignalHandler sample_params SIGALRM (sample_sig 0 (Some 1))))) = []"
    by (simp add: SignalHandler_def sig_event_def final_state_def alarms_def sample_sig_def
        signal_numbers)
  have c: "run_outcome (SignalHandler sample_params SIGALRM (sample_sig 1792 (Some 0))) = None"
    by (simp add: SignalHandler_def run_outcome_def sample_sig_def signal_numbers)
  from a b c show ?thesis by simp
qed

text \<open>
  C7, amended: the supervision of the tuning timeout rests on one call of \<^verbatim>\<open>alarm\<close>,
  and does not depend on any packet. In a run that gets through the configuration,
  \<^verbatim>\<open>main\<close> calls \<^verbatim>\<open>alarm(tuning_timeout)\<close> exactly once when an output is configured
  and the timeout is not 0, and never otherwise; the handler never calls \<^verbatim>\<open>alarm\<close>,
  whatever the signal. On the alarm, the handler ends the process with
  \<^verbatim>\<open>exit(ERROR_TUNE)\<close> when no shutdown is pending and the card is not tuned, and
  does not end it when a shutdown is pending or the card is tuned.
\<close>

theorem alarm_armed_once:
  assumes "prelude K E (initial_state K E) = Cont st1"
      and "configuration K E rs st1 = Cont st2"
  shows "alarms (trace (final_state (main K E rs))) =
           (if ((ttl (blk st2) \<noteq> 0 \<and> multicast (blk st2) \<noteq> 0) \<or> unicast (blk st2) \<noteq> 0) \<and>
               tuning_timeout (blk st2) \<noteq> 0
            then [Alarm (tuning_timeout (blk st2))] else []) \<and>
         (\<forall>signum s. alarms (sig_trace (final_state (SignalHandler K signum s))) =
                      alarms (sig_trace s)) \<and>
         (\<forall>s. interrupted s = 0 \<and> card_tuned_ptr s = Some 0 \<longrightarrow>
              run_outcome (SignalHandler K SIGALRM s) = Some (Exited (ERROR_TUNE K))) \<and>
         (\<forall>s. interrupted s \<noteq> 0 \<or> card_tuned_ptr s \<noteq> Some 0 \<longrightarrow>
              run_outcome (SignalHandler K SIGALRM s) = None)"
proof -
  have "unarmed (initial_state K E)" by (simp add: unarmed_def alarms_def initial_state_def)
  from configuration_unarmed [OF assms(2) prelude_unarmed [OF assms(1) this]]
  have "alarms (trace st2) = []" by (simp add: unarmed_def)
  with startup_alarms [of K E st2] have
    "alarms (trace (final_state (main K E rs))) =
       (if ((ttl (blk st2) \<noteq> 0 \<and> multicast (blk st2) \<noteq> 0) \<or> unicast (blk st2) \<noteq> 0) \<and>
           tuning_timeout (blk st2) \<noteq> 0
        then [Alarm (tuning_timeout (blk st2))] else [])"
    unfolding main_startup [OF assms] by simp
  with handler_alarms handler_on_alarm show ?thesis by blast
qed

text \<open>
  The sample environment with an empty file: the timeout is 300 and multicast is on.
  The handler is taken at the alarm with no shutdown pending, the card not tuned and
  then tuned; 7 is the tuning error of the sample constants.
\<close>

theorem alarm_armed_once_witness:
  "alarms (trace (final_state (main sample_params plain_env []))) = [Alarm 300] \<and>
   alarms (sig_trace (final_state (SignalHandler sample_params SIGALRM (sample_sig 0 (Some 0))))) = [] \<and>
   run_outcome (SignalHandler sample_params SIGALRM (sample_sig 0 (Some 0))) = Some (Exited 7) \<and>
   run_outcome (SignalHandler sample_params SIGALRM (sample_sig 0 (Some 1))) = None"
proof -
  let ?st = "add_event Print_info (initial_state sample_params plain_env)"
  have b: "blk ?st = sample_blocks"
    by (simp add: add_event_def initial_state_def plain_env_def sample_env_def)
  have c: "((ttl (blk ?st) \<noteq> 0 \<and> multicast (blk ?st) \<noteq> 0) \<or> unicast (blk ?st) \<noteq> 0) \<and>
           tuning_timeout (blk ?st) \<noteq> 0"
    unfolding b by (simp add: sample_blocks_def)
  have t: "tuning_timeout (blk ?st) = 300" unfolding b by (simp add: sample_blocks_def)
  have e: "ERROR_TUNE sample_params = 7" by (simp add: sample_params_def)
  have s0: "alarms (sig_trace (sample_sig 0 (Some 0))) = []"
    by (simp add: sample_sig_def alarms_def)
  have i0: "interrupted (sample_sig 0 (Some 0)) = 0 \<and> card_tuned_ptr (sample_sig 0 (Some 0)) = Some 0"
    by (simp add: sample_sig_def)
  have i1: "interrupted (sample_sig 0 (Some 1)) \<noteq> 0 \<or> card_tuned_ptr (sample_sig 0 (Some 1)) \<noteq> Some 0"
    by (simp add: sample_sig_def)
  from alarm_armed_once [OF conjunct1 [OF plain_env_start] conjunct2 [OF plain_env_start]]
  have "alarms (trace (final_state (main sample_params plain_env []))) = [Alarm 300]"
    and "alarms (sig_trace (final_state (SignalHandler sample_params SIGALRM (sample_sig 0 (Some 0))))) =
           alarms (sig_trace (sample_sig 0 (Some 0)))"
    and "run_outcome (SignalHandler sample_params SIGALRM (sample_sig 0 (Some 0))) = Some (Exited 7)"
    and "run_outcome (SignalHandler sample_params SIGALRM (sample_sig 0 (Some 1))) = None"
    using c t e i0 i1 by simp_all
  with s0 show ?thesis by simp
qed

section \<open>The buffer sizes\<close>

lemma startup_invariant:
  assumes "1 \<le> dvr_buffer_size st" and "startup K E st = Halt out s"
  shows "buffer_invariant s"
proof -
  have "1 \<le> dvr_buffer_size (option_defaults st)"
    using assms(1) option_defaults_buffers [of st] by (simp add: buffers_def)
  from buffer_limits_inv [OF this] startup_buffers [OF assms(2)] show ?thesis
    by (simp add: buffers_def buffer_invariant_def)
qed

lemma buffer_limits_warns:
  "\<exists>ws. trace (buffer_limits st) = trace st @ ws \<and>
        (\<forall>e \<in> set ws. \<exists>txt. e = Log MSG_WARN txt) \<and>
        (buffers (buffer_limits st) \<noteq> buffers st \<longrightarrow> ws \<noteq> [])"
  by (auto simp: buffer_limits_def buffers_def Let_def state_defs)

lemma dvr_buffer_size_clamped:
  assumes "next_arg K cur = Some t" and "atoi t \<le> 0"
  shows "\<exists>s. own_option K st ''dvr_buffer_size'' cur = Some (Cont s) \<and> dvr_buffer_size s = 1 \<and>
             max_thread_buffer_size s = max_thread_buffer_size st \<and>
             trace s = trace st @ [Log MSG_WARN ''The buffer size MUST be >0, forced to 1 packet'']"
  using assms by (simp add: own_option_def with_int_def Let_def state_defs)

lemma dvr_buffer_size_kept:
  assumes "next_arg K cur = Some t" and "0 < atoi t"
  shows "\<exists>s. own_option K st ''dvr_buffer_size'' cur = Some (Cont s) \<and>
             dvr_buffer_size s = atoi t \<and>
             max_thread_buffer_size s = max_thread_buffer_size st \<and> trace s = trace st"
  using assms by (simp add: own_option_def with_int_def Let_def state_defs)

lemma thread_buffer_size_stored:
  assumes "next_arg K cur = Some t"
  shows "\<exists>s. own_option K st ''dvr_thread_buffer_size'' cur = Some (Cont s) \<and>
             max_thread_buffer_size s = atoi t \<and>
             dvr_buffer_size s = dvr_buffer_size st \<and> trace s = trace st"
  using assms by (simp add: own_option_def with_int_def Let_def state_defs)

lemma buffer_limits_values:
  "dvr_buffer_size (buffer_limits st) =
     (if 0 < t2mi_pid st \<and> dvr_buffer_size st < 20 then 20 else dvr_buffer_size st) \<and>
   max_thread_buffer_size (buffer_limits st) =
     max (max_thread_buffer_size st) (dvr_buffer_size (buffer_limits st)) \<and>
   t2mi_pid (buffer_limits st) = t2mi_pid st"
  by (simp add: buffer_limits_def Let_def state_defs max_def)

lemma startup_sizes:
  assumes "1 \<le> dvr_buffer_size st" and "startup K E st = Halt out s"
  shows "buffer_invariant s \<and> buffers s = buffers (buffer_limits st)"
proof -
  have e: "buffers (buffer_limits (option_defaults st)) = buffers (buffer_limits st)"
    using option_defaults_buffers [of st]
    by (simp add: buffers_def buffer_limits_def Let_def state_defs)
  from startup_invariant [OF assms] startup_buffers [OF assms(2)] e show ?thesis by simp
qed

text \<open>
  C9: once the configuration has been read (the first part of \<^verbatim>\<open>main\<close> and the loop
  over the file have ended without leaving the program), the two adjustments that
  follow establish the relation between the buffer sizes: \<^verbatim>\<open>dvr_buffer_size\<close> is at
  least 1, \<^verbatim>\<open>max_thread_buffer_size\<close> is at least \<^verbatim>\<open>dvr_buffer_size\<close>, and
  \<^verbatim>\<open>dvr_buffer_size\<close> is at least 20 when the T2-MI PID is positive; the relation
  still holds in the state \<^verbatim>\<open>main\<close> ends in, whose sizes are those the adjustments
  left. The default of \<^verbatim>\<open>dvr_buffer_size\<close> comes from a header and is taken to be at
  least 1. The values are the ones the code computes. A \<^verbatim>\<open>dvr_buffer_size\<close> line whose
  number \<^verbatim>\<open>atoi\<close> returns as 0 or less sets the size to 1 and logs a warning, without
  leaving the program; one whose number \<^verbatim>\<open>atoi\<close> returns as positive sets the size to
  that number and logs nothing; a \<^verbatim>\<open>dvr_thread_buffer_size\<close> line stores what
  \<^verbatim>\<open>atoi\<close> returns, whatever it is. After the loop, \<^verbatim>\<open>dvr_buffer_size\<close> becomes 20
  when the T2-MI PID is positive and the size below 20, and is left alone otherwise;
  \<^verbatim>\<open>max_thread_buffer_size\<close> becomes the larger of itself and the resulting
  \<^verbatim>\<open>dvr_buffer_size\<close>; these adjustments log only warnings, and log one whenever
  they change a size.
\<close>

theorem buffer_sizes_after_configuration:
  assumes "1 \<le> DEFAULT_TS_BUFFER_SIZE K"
      and "prelude K E (initial_state K E) = Cont st1"
      and "configuration K E rs st1 = Cont st2"
  shows "buffer_invariant (buffer_limits (option_defaults st2)) \<and>
         (\<forall>out s. startup K E st2 = Halt out s \<longrightarrow>
            buffer_invariant s \<and> buffers s = buffers (buffer_limits st2)) \<and>
         (\<forall>cur t st. next_arg K cur = Some t \<and> atoi t \<le> 0 \<longrightarrow>
            (\<exists>s. own_option K st ''dvr_buffer_size'' cur = Some (Cont s) \<and>
                 dvr_buffer_size s = 1 \<and>
                 max_thread_buffer_size s = max_thread_buffer_size st \<and>
                 trace s =
                   trace st @ [Log MSG_WARN ''The buffer size MUST be >0, forced to 1 packet''])) \<and>
         (\<forall>cur t st. next_arg K cur = Some t \<and> 0 < atoi t \<longrightarrow>
            (\<exists>s. own_option K st ''dvr_buffer_size'' cur = Some (Cont s) \<and>
                 dvr_buffer_size s = atoi t \<and>
                 max_thread_buffer_size s = max_thread_buffer_size st \<and> trace s = trace st)) \<and>
         (\<forall>cur t st. next_arg K cur = Some t \<longrightarrow>
            (\<exists>s. own_option K st ''dvr_thread_buffer_size'' cur = Some (Cont s) \<and>
                 max_thread_buffer_size s = atoi t \<and>
                 dvr_buffer_size s = dvr_buffer_size st \<and> trace s = trace st)) \<and>
         (\<forall>st. dvr_buffer_size (buffer_limits st) =
                 (if 0 < t2mi_pid st \<and> dvr_buffer_size st < 20 then 20 else dvr_buffer_size st) \<and>
               max_thread_buffer_size (buffer_limits st) =
                 max (max_thread_buffer_size st) (dvr_buffer_size (buffer_limits st)) \<and>
               t2mi_pid (buffer_limits st) = t2mi_pid st) \<and>
         (\<forall>st. \<exists>ws. trace (buffer_limits st) = trace st @ ws \<and>
                (\<forall>e \<in> set ws. \<exists>txt. e = Log MSG_WARN txt) \<and>
                (buffers (buffer_limits st) \<noteq> buffers st \<longrightarrow> ws \<noteq> []))"
proof -
  have "1 \<le> dvr_buffer_size (initial_state K E)"
    using assms(1) by (simp add: initial_state_def)
  with prelude_dvr [OF assms(2)] have "1 \<le> dvr_buffer_size st1" by simp
  from configuration_dvr [OF assms(3) this] have d: "1 \<le> dvr_buffer_size st2" .
  then have "1 \<le> dvr_buffer_size (option_defaults st2)"
    using option_defaults_buffers [of st2] by (simp add: buffers_def)
  from buffer_limits_inv [OF this]
  have a: "buffer_invariant (buffer_limits (option_defaults st2))"
    by (simp add: buffer_invariant_def)
  have b: "\<forall>out s. startup K E st2 = Halt out s \<longrightarrow>
                    buffer_invariant s \<and> buffers s = buffers (buffer_limits st2)"
    by (intro allI impI) (erule startup_sizes [OF d])
  have c: "\<forall>cur t st. next_arg K cur = Some t \<and> atoi t \<le> 0 \<longrightarrow>
            (\<exists>s. own_option K st ''dvr_buffer_size'' cur = Some (Cont s) \<and>
                 dvr_buffer_size s = 1 \<and>
                 max_thread_buffer_size s = max_thread_buffer_size st \<and>
                 trace s =
                   trace st @ [Log MSG_WARN ''The buffer size MUST be >0, forced to 1 packet''])"
    by (blast intro: dvr_buffer_size_clamped)
  have e: "\<forall>cur t st. next_arg K cur = Some t \<and> 0 < atoi t \<longrightarrow>
            (\<exists>s. own_option K st ''dvr_buffer_size'' cur = Some (Cont s) \<and>
                 dvr_buffer_size s = atoi t \<and>
                 max_thread_buffer_size s = max_thread_buffer_size st \<and> trace s = trace st)"
    by (blast intro: dvr_buffer_size_kept)
  have f: "\<forall>cur t st. next_arg K cur = Some t \<longrightarrow>
            (\<exists>s. own_option K st ''dvr_thread_buffer_size'' cur = Some (Cont s) \<and>
                 max_thread_buffer_size s = atoi t \<and>
                 dvr_buffer_size s = dvr_buffer_size st \<and> trace s = trace st)"
    by (blast intro: thread_buffer_size_stored)
  have g: "\<forall>st. dvr_buffer_size (buffer_limits st) =
                 (if 0 < t2mi_pid st \<and> dvr_buffer_size st < 20 then 20 else dvr_buffer_size st) \<and>
               max_thread_buffer_size (buffer_limits st) =
                 max (max_thread_buffer_size st) (dvr_buffer_size (buffer_limits st)) \<and>
               t2mi_pid (buffer_limits st) = t2mi_pid st"
    using buffer_limits_values by blast
  have h: "\<forall>st. \<exists>ws. trace (buffer_limits st) = trace st @ ws \<and>
                (\<forall>e \<in> set ws. \<exists>txt. e = Log MSG_WARN txt) \<and>
                (buffers (buffer_limits st) \<noteq> buffers st \<longrightarrow> ws \<noteq> [])"
    using buffer_limits_warns by blast
  show ?thesis
    apply (intro conjI)
          apply (rule a)
         apply (rule b)
        apply (rule c)
       apply (rule e)
      apply (rule f)
     apply (rule g)
    apply (rule h)
    done
qed

text \<open>
  The sample file sets \<^verbatim>\<open>dvr_buffer_size\<close> to -3, the T2-MI PID to 5 and the thread
  buffer to 2: the run reaches \<^verbatim>\<open>mumudvb_close\<close> with both sizes at 20. In the state
  the loop has left, a line \<^verbatim>\<open>dvr_buffer_size=4294967296\<close>, which \<^verbatim>\<open>atoi\<close> returns as
  0, would set the size to 1 with the warning, and \<^verbatim>\<open>dvr_buffer_size=-4294967200\<close>,
  returned as 96, would set it to 96 with none.
\<close>

theorem buffer_sizes_after_configuration_witness:
  "1 \<le> DEFAULT_TS_BUFFER_SIZE sample_params \<and>
   (\<exists>st1 st2 s.
      prelude sample_params (sample_env sample_lines)
        (initial_state sample_params (sample_env sample_lines)) = Cont st1 \<and>
      configuration sample_params (sample_env sample_lines) [] st1 = Cont st2 \<and>
      startup sample_params (sample_env sample_lines) st2 = Halt Returned_close s \<and>
      buffer_invariant s \<and> buffers s = (20, 20, 5) \<and> buffers (buffer_limits st2) = (20, 20, 5) \<and>
      (\<exists>s1. own_option sample_params st2 ''dvr_buffer_size'' ''4294967296'' = Some (Cont s1) \<and>
            dvr_buffer_size s1 = 1 \<and>
            trace s1 =
              trace st2 @ [Log MSG_WARN ''The buffer size MUST be >0, forced to 1 packet'']) \<and>
      (\<exists>s2. own_option sample_params st2 ''dvr_buffer_size'' ''-4294967200'' = Some (Cont s2) \<and>
            dvr_buffer_size s2 = 96 \<and> trace s2 = trace st2) \<and>
      (\<exists>s3. own_option sample_params st2 ''dvr_thread_buffer_size'' ''7'' = Some (Cont s3) \<and>
            max_thread_buffer_size s3 = 7 \<and> trace s3 = trace st2))"
proof -
  let ?E = "sample_env sample_lines"
  have h: "1 \<le> DEFAULT_TS_BUFFER_SIZE sample_params" by (simp add: sample_params_def)
  from sample_run obtain s where m: "main sample_params ?E [] = Halt Returned_close s"
    and b: "buffers s = (20, 20, 5)" by blast
  from main_close [OF m] obtain st1 st2 where
    p: "prelude sample_params ?E (initial_state sample_params ?E) = Cont st1" and
    c: "configuration sample_params ?E [] st1 = Cont st2" and
    u: "startup sample_params ?E st2 = Halt Returned_close s" by blast
  have n1: "next_arg sample_params ''4294967296'' = Some ''4294967296'' \<and> atoi ''4294967296'' \<le> 0"
    by (simp add: next_arg_def sample_params_def strtok_def atoi_defs)
  have n2: "next_arg sample_params ''-4294967200'' = Some ''-4294967200'' \<and>
            0 < atoi ''-4294967200''"
    by (simp add: next_arg_def sample_params_def strtok_def atoi_defs)
  have n3: "next_arg sample_params ''7'' = Some ''7''"
    by (simp add: next_arg_def sample_params_def strtok_def)
  have v2: "atoi ''-4294967200'' = 96" by (simp add: atoi_defs)
  have v3: "atoi ''7'' = 7" by (simp add: atoi_defs)
  note t = buffer_sizes_after_configuration [OF h p c]
  from t u have i: "buffer_invariant s \<and> buffers s = buffers (buffer_limits st2)" by blast
  from t n1 have w1:
    "\<exists>s1. own_option sample_params st2 ''dvr_buffer_size'' ''4294967296'' = Some (Cont s1) \<and>
          dvr_buffer_size s1 = 1 \<and>
          trace s1 = trace st2 @ [Log MSG_WARN ''The buffer size MUST be >0, forced to 1 packet'']"
    by blast
  from t n2 have
    "\<exists>s2. own_option sample_params st2 ''dvr_buffer_size'' ''-4294967200'' = Some (Cont s2) \<and>
          dvr_buffer_size s2 = atoi ''-4294967200'' \<and> trace s2 = trace st2"
    by blast
  then have w2:
    "\<exists>s2. own_option sample_params st2 ''dvr_buffer_size'' ''-4294967200'' = Some (Cont s2) \<and>
          dvr_buffer_size s2 = 96 \<and> trace s2 = trace st2"
    unfolding v2 .
  from t n3 have
    "\<exists>s3. own_option sample_params st2 ''dvr_thread_buffer_size'' ''7'' = Some (Cont s3) \<and>
          max_thread_buffer_size s3 = atoi ''7'' \<and> trace s3 = trace st2"
    by blast
  then have w3:
    "\<exists>s3. own_option sample_params st2 ''dvr_thread_buffer_size'' ''7'' = Some (Cont s3) \<and>
          max_thread_buffer_size s3 = 7 \<and> trace s3 = trace st2"
    unfolding v3 .
  from i b have j: "buffer_invariant s" "buffers (buffer_limits st2) = (20, 20, 5)" by simp_all
  from h p c u j b w1 w2 w3 show ?thesis by blast
qed

section \<open>The T2-MI input PID\<close>

text \<open>
  C10: a line \<^verbatim>\<open>t2mi_pid=\<close>\<open>t\<close> whose value, as \<^verbatim>\<open>atoi\<close> returns it, is below 1 or
  above 8192 does not end the program. The loop goes on with the next line, in a state
  where the T2-MI PID is 4096 and where the warning has been logged, after the notice
  that every \<^verbatim>\<open>t2mi_pid\<close> line logs. The line is one that reaches the option: it is
  not a comment, no reader of a collaborator takes the option for its own, and the
  channel count is within its limit, as it is after every line the loop has handled.
  The value tested is the \<^verbatim>\<open>int\<close> stored in \<^verbatim>\<open>chan_p.t2mi_pid\<close>: a number that does
  not fit an \<^verbatim>\<open>int\<close> is judged by what \<^verbatim>\<open>atoi\<close> makes of it.
\<close>

theorem t2mi_pid_out_of_range_forced:
  assumes "strtok (CONFIG_FILE_SEPARATOR K) (chomp raw) = (Some ''t2mi_pid'', cur)"
      and "CHR ''='' \<in> set (chomp raw)" and "\<not> is_comment (chomp raw)"
      and "fst (run_readers rs n ''t2mi_pid'' (blk st)) = 0"
      and "next_arg K cur = Some t" and "atoi t < 1 \<or> 8192 < atoi t"
      and "ichan st \<le> int (MAX_CHANNELS K)"
  shows "\<exists>s. read_config K rs n (raw # ls) st = read_config K rs (Suc n) ls s \<and>
             config_line K rs n raw st = Cont s \<and> t2mi_pid s = 4096 \<and>
             trace s = trace st @ [Log MSG_INFO ''Demuxing T2-MI stream on pid %d as input'',
                                   Log MSG_WARN ''wrong t2mi pid, forced to 4096'']"
proof -
  let ?st1 = "after_readers rs n ''t2mi_pid'' st"
  let ?s = "(log_message MSG_WARN ''wrong t2mi pid, forced to 4096''
              (log_message MSG_INFO ''Demuxing T2-MI stream on pid %d as input''
                 (?st1\<lparr>t2mi_pid := atoi t\<rparr>)))\<lparr>t2mi_pid := 4096\<rparr>"
  have o: "own_option K ?st1 ''t2mi_pid'' (snd (strtok (CONFIG_FILE_SEPARATOR K) (chomp raw))) =
             Some (Cont ?s)"
    using assms(1,5,6) by (auto simp: own_option_def with_int_def Let_def state_defs)
  have "config_line K rs n raw st = line_end K ?s"
    using assms(1-4) o by (intro config_line_own) (simp_all add: is_comment_def)
  moreover have "line_end K ?s = Cont (?s\<lparr>curr_channel_old := ichan st\<rparr>)"
    using assms(7)
    by (auto simp: line_end_def after_readers_def state_defs intro: pstate.equality)
  ultimately have c: "config_line K rs n raw st = Cont (?s\<lparr>curr_channel_old := ichan st\<rparr>)"
    by simp
  then show ?thesis by (simp add: after_readers_def state_defs)
qed

text \<open>
  The line \<^verbatim>\<open>t2mi_pid=9000\<close>, first of a file of two lines; and the line
  \<^verbatim>\<open>t2mi_pid=4294967296\<close>, whose number \<^verbatim>\<open>atoi\<close> returns as 0.
\<close>

theorem t2mi_pid_out_of_range_forced_witness:
  "(\<exists>s. read_config sample_params [] 0 [''t2mi_pid=9000'', ''t2mi_plp=1'']
          (initial_state sample_params (sample_env [])) =
        read_config sample_params [] (Suc 0) [''t2mi_plp=1''] s \<and>
        t2mi_pid s = 4096 \<and>
        trace s = [Log MSG_INFO ''Demuxing T2-MI stream on pid %d as input'',
                   Log MSG_WARN ''wrong t2mi pid, forced to 4096'']) \<and>
   (\<exists>s. config_line sample_params [] 0 ''t2mi_pid=4294967296''
          (initial_state sample_params (sample_env [])) = Cont s \<and>
        t2mi_pid s = 4096 \<and>
        trace s = [Log MSG_INFO ''Demuxing T2-MI stream on pid %d as input'',
                   Log MSG_WARN ''wrong t2mi pid, forced to 4096''])"
proof -
  let ?st = "initial_state sample_params (sample_env [])"
  have h1: "strtok (CONFIG_FILE_SEPARATOR sample_params) (chomp ''t2mi_pid=9000'') =
              (Some ''t2mi_pid'', ''9000'')"
    by (simp add: sample_params_def chomp_def strtok_def)
  have h2: "CHR ''='' \<in> set (chomp ''t2mi_pid=9000'')" by (simp add: chomp_def)
  have h3: "\<not> is_comment (chomp ''t2mi_pid=9000'')" by (simp add: chomp_def is_comment_def)
  have h4: "fst (run_readers [] 0 ''t2mi_pid'' (blk ?st)) = 0" by simp
  have h5: "next_arg sample_params ''9000'' = Some ''9000''"
    by (simp add: next_arg_def sample_params_def strtok_def)
  have h6: "atoi ''9000'' < 1 \<or> 8192 < atoi ''9000''"
    by (simp add: atoi_defs)
  have h7: "ichan ?st \<le> int (MAX_CHANNELS sample_params)"
    by (simp add: initial_state_def sample_params_def)
  have g1: "strtok (CONFIG_FILE_SEPARATOR sample_params) (chomp ''t2mi_pid=4294967296'') =
              (Some ''t2mi_pid'', ''4294967296'')"
    by (simp add: sample_params_def chomp_def strtok_def)
  have g2: "CHR ''='' \<in> set (chomp ''t2mi_pid=4294967296'')" by (simp add: chomp_def)
  have g3: "\<not> is_comment (chomp ''t2mi_pid=4294967296'')" by (simp add: chomp_def is_comment_def)
  have g5: "next_arg sample_params ''4294967296'' = Some ''4294967296''"
    by (simp add: next_arg_def sample_params_def strtok_def)
  have g6: "atoi ''4294967296'' < 1 \<or> 8192 < atoi ''4294967296''"
    by (simp add: atoi_defs)
  have t0: "trace ?st = []" by (simp add: initial_state_def)
  from t2mi_pid_out_of_range_forced [OF h1 h2 h3 h4 h5 h6 h7, of "[''t2mi_plp=1'']"]
  have a: "\<exists>s. read_config sample_params [] 0 [''t2mi_pid=9000'', ''t2mi_plp=1''] ?st =
        read_config sample_params [] (Suc 0) [''t2mi_plp=1''] s \<and>
        t2mi_pid s = 4096 \<and>
        trace s = [Log MSG_INFO ''Demuxing T2-MI stream on pid %d as input'',
                   Log MSG_WARN ''wrong t2mi pid, forced to 4096'']"
    unfolding t0 append_Nil by blast
  from t2mi_pid_out_of_range_forced [OF g1 g2 g3 h4 g5 g6 h7, of "[]"]
  have b: "\<exists>s. config_line sample_params [] 0 ''t2mi_pid=4294967296'' ?st = Cont s \<and>
        t2mi_pid s = 4096 \<and>
        trace s = [Log MSG_INFO ''Demuxing T2-MI stream on pid %d as input'',
                   Log MSG_WARN ''wrong t2mi pid, forced to 4096'']"
    unfolding t0 append_Nil by blast
  from a b show ?thesis by (rule conjI)
qed

section \<open>Declaring a channel\<close>

text \<open>
  C6: a line whose first token is \<^verbatim>\<open>new_channel\<close>, that is not a comment and that no
  reader of a collaborator takes for its own, moves \<^verbatim>\<open>ichan\<close> to the next index and
  sets \<^verbatim>\<open>channel_ready\<close> of the channel at that index to \<^verbatim>\<open>ALMOST_READY\<close>. The loop
  goes on when the new index is at most \<^verbatim>\<open>MAX_CHANNELS\<close>; otherwise the program exits
  with \<^verbatim>\<open>ERROR_TOO_CHANNELS\<close>, after the assignment.
\<close>

theorem new_channel_almost_ready:
  assumes "fst (strtok (CONFIG_FILE_SEPARATOR K) (chomp raw)) = Some ''new_channel''"
      and "\<not> is_comment (chomp raw)"
      and "fst (run_readers rs n ''new_channel'' (blk st)) = 0"
  shows "\<exists>s. ichan s = ichan st + 1 \<and>
             channel_ready (chan_get s (ichan s)) = ALMOST_READY K \<and>
             (if ichan st + 1 \<le> int (MAX_CHANNELS K)
              then config_line K rs n raw st = Cont s
              else config_line K rs n raw st = Halt (Exited (ERROR_TOO_CHANNELS K)) s)"
proof -
  let ?new = "log_message MSG_INFO ''New channel, current number %d''
               (chan_upd ((after_readers rs n ''new_channel'' st)\<lparr>ichan := ichan st + 1\<rparr>)
                  (ichan st + 1) (\<lambda>c. c\<lparr>channel_ready := ALMOST_READY K\<rparr>))"
  have c: "config_line K rs n raw st = line_end K ?new"
    by (rule config_line_new_channel [OF assms])
  have i: "ichan ?new = ichan st + 1" by (simp add: state_defs after_readers_def)
  have r: "channel_ready (chan_get ?new (ichan st + 1)) = ALMOST_READY K"
    by (simp add: state_defs after_readers_def)
  show ?thesis
  proof (cases "ichan st + 1 \<le> int (MAX_CHANNELS K)")
    case True
    let ?s = "?new\<lparr>curr_channel_old := ichan ?new\<rparr>"
    have "line_end K ?new = Cont ?s"
      by (rule line_end_le) (simp only: i True)
    with c have "config_line K rs n raw st = Cont ?s" by simp
    moreover have "ichan ?s = ichan st + 1" using i by simp
    moreover have "channel_ready (chan_get ?s (ichan st + 1)) = ALMOST_READY K"
      using r by (simp add: chan_get_def)
    ultimately show ?thesis using True by (intro exI [of _ ?s]) simp
  next
    case False
    let ?s = "log_message MSG_ERROR ''Too many channels : %d limit : %d'' ?new"
    have "line_end K ?new = Halt (Exited (ERROR_TOO_CHANNELS K)) ?s"
      by (rule line_end_gt) (simp only: i False not_False_eq_True)
    with c have "config_line K rs n raw st = Halt (Exited (ERROR_TOO_CHANNELS K)) ?s" by simp
    moreover have "ichan ?s = ichan st + 1" using i by (simp add: state_defs)
    moreover have "channel_ready (chan_get ?s (ichan st + 1)) = ALMOST_READY K"
      using r by (simp add: state_defs)
    ultimately show ?thesis using False by (intro exI [of _ ?s]) simp
  qed
qed

text \<open>The first \<^verbatim>\<open>new_channel\<close> line of a file declares channel 0.\<close>

theorem new_channel_almost_ready_witness:
  "\<exists>s. ichan s = 0 \<and> channel_ready (chan_get s (ichan s)) = 1 \<and>
       config_line sample_params [] 0 (''new_channel'' @ [CHR 0x0A])
         (initial_state sample_params (sample_env [])) = Cont s"
proof -
  let ?st = "initial_state sample_params (sample_env [])"
  let ?raw = "''new_channel'' @ [CHR 0x0A]"
  have h1: "fst (strtok (CONFIG_FILE_SEPARATOR sample_params) (chomp ?raw)) = Some ''new_channel''"
    by (simp add: sample_params_def chomp_def strtok_def)
  have h2: "\<not> is_comment (chomp ?raw)" by (simp add: chomp_def is_comment_def)
  have h3: "fst (run_readers [] 0 ''new_channel'' (blk ?st)) = 0" by simp
  have i1: "ichan ?st + 1 = 0" by (simp add: initial_state_def)
  have i2: "ichan ?st + 1 \<le> int (MAX_CHANNELS sample_params)"
    by (simp add: initial_state_def sample_params_def)
  have a: "ALMOST_READY sample_params = 1" by (simp add: sample_params_def)
  from new_channel_almost_ready [OF h1 h2 h3] obtain s where
    s1: "ichan s = ichan ?st + 1" and
    s2: "channel_ready (chan_get s (ichan s)) = ALMOST_READY sample_params" and
    s3: "if ichan ?st + 1 \<le> int (MAX_CHANNELS sample_params)
         then config_line sample_params [] 0 ?raw ?st = Cont s
         else config_line sample_params [] 0 ?raw ?st =
                Halt (Exited (ERROR_TOO_CHANNELS sample_params)) s"
    by blast
  from s3 i2 have "config_line sample_params [] 0 ?raw ?st = Cont s" by (simp only: if_True)
  moreover from s1 i1 have "ichan s = 0" by simp
  moreover from s2 a have "channel_ready (chan_get s (ichan s)) = 1" by simp
  ultimately show ?thesis by blast
qed

section \<open>The PIDs of a channel\<close>

text \<open>
  C2, as stated, fails: the \<^verbatim>\<open>pids\<close> option accepts 8192, which is not a 13-bit
  value. The sample file has the line \<^verbatim>\<open>pids=100 8192\<close>; the run reaches
  \<^verbatim>\<open>mumudvb_close\<close> and channel 0 holds both values.
\<close>

theorem pid_8192_accepted:
  "run_outcome (main sample_params (sample_env sample_lines) []) = Some Returned_close \<and>
   accepted_pids (chan_get (final_state (main sample_params (sample_env sample_lines) [])) 0) =
     [100, 8192]"
proof -
  from sample_run obtain s where
    "main sample_params (sample_env sample_lines) [] = Halt Returned_close s"
    "accepted_pids (chan_get s 0) = [100, 8192]" by blast
  then show ?thesis by (simp add: run_outcome_def final_state_def)
qed

text \<open>
  C2, amended: once the configuration has been read, every PID that a channel holds
  lies between 10 and 8192, both included; and a \<^verbatim>\<open>pids\<close> line on which some value,
  as \<^verbatim>\<open>atoi\<close> returns it, is below 10 or above 8192 ends the program with
  \<^verbatim>\<open>exit(ERROR_CONF)\<close>. The value tested is the \<^verbatim>\<open>int\<close> the code stores: a number
  that does not fit an \<^verbatim>\<open>int\<close> is judged by what \<^verbatim>\<open>atoi\<close> makes of it.
\<close>

theorem accepted_pids_in_range:
  assumes "prelude K E (initial_state K E) = Cont st1"
      and "configuration K E rs st1 = Cont st2"
  shows "(\<forall>i. \<forall>p \<in> set (accepted_pids (chan_get st2 i)). 10 \<le> p \<and> p \<le> 8192) \<and>
         (\<forall>st cur. (\<exists>t \<in> set (tokens (CONFIG_FILE_SEPARATOR K) cur). atoi t < 10 \<or> 8192 < atoi t) \<longrightarrow>
            (\<exists>s. own_option K st ''pids'' cur = Some (Halt (Exited (ERROR_CONF K)) s)))"
proof -
  have "all_pids_ok (initial_state K E)"
    by (auto simp: all_pids_ok_def pids_ok_def chan_get_def initial_state_def zero_channel_def)
  from all_pids_ok_cong [OF prelude_channels [OF assms(1)] this] have "all_pids_ok st1" .
  from configuration_pids_ok [OF assms(2) this] have "all_pids_ok st2" .
  then have a: "\<forall>i. \<forall>p \<in> set (accepted_pids (chan_get st2 i)). 10 \<le> p \<and> p \<le> 8192"
    using pids_ok_accepted by (auto simp: all_pids_ok_def pid_accepted_def)
  have b: "\<forall>st cur. (\<exists>t \<in> set (tokens (CONFIG_FILE_SEPARATOR K) cur). atoi t < 10 \<or> 8192 < atoi t) \<longrightarrow>
            (\<exists>s. own_option K st ''pids'' cur = Some (Halt (Exited (ERROR_CONF K)) s))"
    using pids_line_fatal by (auto simp: pid_accepted_def)
  from a b show ?thesis by blast
qed

text \<open>
  The sample file again: both of its PIDs are within the bounds. A line \<^verbatim>\<open>pids=5\<close>
  after it would end the program with the configuration error, 3 in the sample
  constants, and so would \<^verbatim>\<open>pids=4294967301\<close>, whose number \<^verbatim>\<open>atoi\<close> returns as 5.
\<close>

theorem accepted_pids_in_range_witness:
  "\<exists>st1 st2 s s'.
      prelude sample_params (sample_env sample_lines)
        (initial_state sample_params (sample_env sample_lines)) = Cont st1 \<and>
      configuration sample_params (sample_env sample_lines) [] st1 = Cont st2 \<and>
      accepted_pids (chan_get st2 0) = [100, 8192] \<and>
      (\<forall>p \<in> set (accepted_pids (chan_get st2 0)). 10 \<le> p \<and> p \<le> 8192) \<and>
      own_option sample_params st2 ''pids'' ''5'' = Some (Halt (Exited 3) s) \<and>
      own_option sample_params st2 ''pids'' ''4294967301'' = Some (Halt (Exited 3) s')"
proof -
  let ?E = "sample_env sample_lines"
  from sample_run obtain s where m: "main sample_params ?E [] = Halt Returned_close s"
    and sp: "accepted_pids (chan_get s 0) = [100, 8192]" by blast
  from main_close [OF m] obtain st1 st2 where
    p: "prelude sample_params ?E (initial_state sample_params ?E) = Cont st1" and
    c: "configuration sample_params ?E [] st1 = Cont st2" and
    u: "startup sample_params ?E st2 = Halt Returned_close s" by blast
  from startup_channels [OF u] sp have a: "accepted_pids (chan_get st2 0) = [100, 8192]"
    by (simp add: chan_get_def)
  have t: "\<exists>t \<in> set (tokens (CONFIG_FILE_SEPARATOR sample_params) ''5''). atoi t < 10 \<or> 8192 < atoi t"
    unfolding sample_tokens by (simp add: atoi_defs)
  have t': "\<exists>t \<in> set (tokens (CONFIG_FILE_SEPARATOR sample_params) ''4294967301'').
              atoi t < 10 \<or> 8192 < atoi t"
    unfolding wrapped_tokens by (simp add: atoi_defs)
  have e: "ERROR_CONF sample_params = 3" by (simp add: sample_params_def)
  note r = accepted_pids_in_range [OF p c]
  from r have r1: "\<forall>p \<in> set (accepted_pids (chan_get st2 0)). 10 \<le> p \<and> p \<le> 8192" by blast
  from r t obtain s' where
    r2: "own_option sample_params st2 ''pids'' ''5'' = Some (Halt (Exited 3) s')"
    unfolding e by blast
  from r t' obtain s'' where
    r3: "own_option sample_params st2 ''pids'' ''4294967301'' = Some (Halt (Exited 3) s'')"
    unfolding e by blast
  from p c a r1 r2 r3 show ?thesis by blast
qed

section \<open>The number of channels\<close>

text \<open>
  C3 does not hold of the code. Whatever \<^verbatim>\<open>MAX_CHANNELS\<close> is, a file of
  \<^verbatim>\<open>MAX_CHANNELS + 1\<close> lines \<^verbatim>\<open>new_channel\<close> is read to its end: the last line stores
  \<^verbatim>\<open>channel_ready\<close> at index \<^verbatim>\<open>MAX_CHANNELS\<close>, one past the last record of an array of
  \<^verbatim>\<open>MAX_CHANNELS\<close> channels, and the test \<^verbatim>\<open>ichan > MAX_CHANNELS\<close> that follows the
  store lets that index through.
\<close>

theorem channel_written_past_the_array:
  "\<exists>s c. read_config (sample_params\<lparr>MAX_CHANNELS := m\<rparr>) [] 0
            (replicate (Suc m) ''new_channel'')
            (initial_state (sample_params\<lparr>MAX_CHANNELS := m\<rparr>) (sample_env [])) = Cont s \<and>
         ichan s = int m \<and> channels s (int m) = Some c \<and> channel_ready c = 1"
proof -
  let ?K = "sample_params\<lparr>MAX_CHANNELS := m\<rparr>"
  let ?st = "initial_state ?K (sample_env [])"
  have h1: "fst (strtok (CONFIG_FILE_SEPARATOR ?K) (chomp ''new_channel'')) = Some ''new_channel''"
    by (simp add: sample_params_def chomp_def strtok_def)
  have h2: "\<not> is_comment (chomp ''new_channel'')" by (simp add: chomp_def is_comment_def)
  have h3: "ichan ?st + int (Suc m) \<le> int (MAX_CHANNELS ?K)" by (simp add: initial_state_def)
  have i: "ichan ?st + int (Suc m) = int m" by (simp add: initial_state_def)
  have a: "ALMOST_READY ?K = 1" by (simp add: sample_params_def)
  from declare_many [OF h1 h2 h3, of 0] show ?thesis unfolding i a by auto
qed

text \<open>With room for two channels, the third \<^verbatim>\<open>new_channel\<close> line is stored at index 2.\<close>

theorem channel_written_past_the_array_witness:
  "\<exists>s c. read_config (sample_params\<lparr>MAX_CHANNELS := 2\<rparr>) [] 0
            (replicate (Suc 2) ''new_channel'')
            (initial_state (sample_params\<lparr>MAX_CHANNELS := 2\<rparr>) (sample_env [])) = Cont s \<and>
         ichan s = int 2 \<and> channels s (int 2) = Some c \<and> channel_ready c = 1"
  by (rule channel_written_past_the_array [of 2])

section \<open>No output configured\<close>

text \<open>
  C5: when the configuration has been read and leaves neither multicast (its switch or
  its TTL is 0) nor unicast, \<^verbatim>\<open>main\<close> logs the error, calls
  \<^verbatim>\<open>set_interrupted(ERROR_CONF<<8)\<close> and returns through \<^verbatim>\<open>mumudvb_close\<close>: these are
  the last three events of the run, and no event of the whole run opens the frontend or
  tunes the card.
\<close>

theorem no_output_sink_is_fatal:
  assumes "prelude K E (initial_state K E) = Cont st1"
      and "configuration K E rs st1 = Cont st2"
      and "ttl (blk st2) = 0 \<or> multicast (blk st2) = 0" and "unicast (blk st2) = 0"
  shows "\<exists>s. main K E rs = Halt Returned_close s \<and>
             last_events 3 s =
               [Log MSG_ERROR ''NO Multicast AND NO unicast. No data can be send :(, Exciting ....'',
                Set_interrupted (push_bit 8 (ERROR_CONF K)), Mumudvb_close] \<and>
             (\<forall>e \<in> set (trace s). \<not> opens_or_tunes e)"
proof -
  let ?st = "multicast_checks (templates K E (buffer_limits (option_defaults st2)))"
  let ?s = "add_event Mumudvb_close
              (add_event (Set_interrupted (push_bit 8 (ERROR_CONF K)))
                 (log_message MSG_ERROR
                    ''NO Multicast AND NO unicast. No data can be send :(, Exciting ....'' ?st))"
  have m: "main K E rs = Halt Returned_close ?s"
    unfolding main_startup [OF assms(1,2)] by (rule startup_no_sink [OF assms(3,4)])
  have "quiet (initial_state K E)" by (simp add: quiet_def initial_state_def)
  from configuration_quiet [OF assms(2) prelude_quiet [OF assms(1) this]]
  have "quiet ?st"
    by (simp only: multicast_checks_quiet templates_quiet buffer_limits_quiet option_defaults_quiet)
  then have q: "\<forall>e \<in> set (trace ?s). \<not> opens_or_tunes e"
    by (simp add: quiet_def state_defs)
  have l: "last_events 3 ?s =
             [Log MSG_ERROR ''NO Multicast AND NO unicast. No data can be send :(, Exciting ....'',
              Set_interrupted (push_bit 8 (ERROR_CONF K)), Mumudvb_close]"
    by (simp add: last_events_def state_defs)
  from m l q show ?thesis by blast
qed

text \<open>The sample blocks with multicast switched off, and no unicast.\<close>

theorem no_output_sink_is_fatal_witness:
  "\<exists>s. main sample_params no_sink_env [] = Halt Returned_close s \<and>
       last_events 3 s =
         [Log MSG_ERROR ''NO Multicast AND NO unicast. No data can be send :(, Exciting ....'',
          Set_interrupted 768, Mumudvb_close] \<and>
       list_all (\<lambda>e. \<not> opens_or_tunes e) (trace s)"
proof -
  let ?st = "add_event Print_info (initial_state sample_params no_sink_env)"
  have b: "blk ?st = sample_blocks\<lparr>multicast := 0\<rparr>"
    by (simp add: add_event_def initial_state_def no_sink_env_def sample_env_def)
  have h3: "ttl (blk ?st) = 0 \<or> multicast (blk ?st) = 0" unfolding b by simp
  have h4: "unicast (blk ?st) = 0" unfolding b by (simp add: sample_blocks_def)
  have e: "push_bit 8 (ERROR_CONF sample_params) = 768" by (simp add: sample_params_def)
  from no_output_sink_is_fatal [OF conjunct1 [OF no_sink_env_start] conjunct2 [OF no_sink_env_start] h3 h4]
  show ?thesis unfolding e list_all_iff by blast
qed

section \<open>The lists of channels\<close>

text \<open>
  C8: when the configuration has been read and leaves an output, \<^verbatim>\<open>main\<close> tries to
  create both lists, the streamed channels and the not streamed ones. When both are
  created, \<^verbatim>\<open>write_streamed_channels\<close> is as the configuration left it. When either
  cannot be created, a warning is logged and \<^verbatim>\<open>write_streamed_channels\<close> is 0. In both
  cases the program goes on: it opens the frontend.
\<close>

theorem channel_lists_created:
  assumes "prelude K E (initial_state K E) = Cont st1"
      and "configuration K E rs st1 = Cont st2"
      and "(ttl (blk st2) \<noteq> 0 \<and> multicast (blk st2) \<noteq> 0) \<or> unicast (blk st2) \<noteq> 0"
  shows "Fopen Streamed_list (fopen_ok E Streamed_list) \<in> set (trace (final_state (main K E rs))) \<and>
         Fopen Not_streamed_list (fopen_ok E Not_streamed_list)
           \<in> set (trace (final_state (main K E rs))) \<and>
         (fopen_ok E Streamed_list \<and> fopen_ok E Not_streamed_list \<longrightarrow>
            write_streamed_channels (final_state (main K E rs)) = write_streamed_channels st2) \<and>
         (\<not> fopen_ok E Streamed_list \<or> \<not> fopen_ok E Not_streamed_list \<longrightarrow>
            write_streamed_channels (final_state (main K E rs)) = 0 \<and>
            Log MSG_WARN ''Can't create %s: %s'' \<in> set (trace (final_state (main K E rs)))) \<and>
         Open_fe (read_file_path (blk st2) \<noteq> []) \<in> set (trace (final_state (main K E rs)))"
proof -
  let ?st = "multicast_checks (templates K E (buffer_limits (option_defaults st2)))"
  let ?l = "list_files E ?st"
  let ?g = "signals E ?l"
  have m: "main K E rs = tuning K E ?g"
    unfolding main_startup [OF assms(1,2)] by (rule startup_sink [OF assms(3)])
  have w: "write_streamed_channels ?st = write_streamed_channels st2"
    by (simp only: multicast_checks_wsc templates_wsc buffer_limits_wsc option_defaults_wsc)
  have "sinks (templates K E (buffer_limits (option_defaults st2))) = sinks st2"
    by (simp only: templates_sinks buffer_limits_sinks option_defaults_sinks)
  with multicast_checks_sinks [of "templates K E (buffer_limits (option_defaults st2))"]
  have "read_file_path (blk ?st) = read_file_path (blk st2)" by (simp add: sinks_def)
  with list_files_sinks [of E ?st] signals_sinks [of E ?l]
  have r: "read_file_path (blk ?g) = read_file_path (blk st2)" by (simp add: sinks_def)
  from list_files_lists [of E ?st] signals_keeps [of ?l E] tuning_keeps [of ?g K E] w r
  show ?thesis unfolding m by auto
qed

text \<open>An environment where the first list cannot be created.\<close>

theorem channel_lists_created_witness:
  "Fopen Streamed_list False \<in> set (trace (final_state (main sample_params no_list_env []))) \<and>
   Fopen Not_streamed_list True \<in> set (trace (final_state (main sample_params no_list_env []))) \<and>
   write_streamed_channels (final_state (main sample_params no_list_env [])) = 0 \<and>
   Log MSG_WARN ''Can't create %s: %s''
     \<in> set (trace (final_state (main sample_params no_list_env []))) \<and>
   Open_fe False \<in> set (trace (final_state (main sample_params no_list_env [])))"
proof -
  let ?st = "add_event Print_info (initial_state sample_params no_list_env)"
  have b: "blk ?st = sample_blocks"
    by (simp add: add_event_def initial_state_def no_list_env_def sample_env_def)
  have h3: "(ttl (blk ?st) \<noteq> 0 \<and> multicast (blk ?st) \<noteq> 0) \<or> unicast (blk ?st) \<noteq> 0"
    unfolding b by (simp add: sample_blocks_def)
  have f: "fopen_ok no_list_env Streamed_list = False" "fopen_ok no_list_env Not_streamed_list = True"
    by (simp_all add: no_list_env_def sample_env_def)
  have r: "(read_file_path (blk ?st) \<noteq> []) = False" unfolding b by (simp add: sample_blocks_def)
  from channel_lists_created [OF conjunct1 [OF no_list_env_start] conjunct2 [OF no_list_env_start] h3]
  show ?thesis unfolding f r by simp
qed

section \<open>After tuning\<close>

text \<open>
  C1, as stated, fails: once the card is tuned the program does not read a single
  packet. On the sample file, with a frontend that opens and a card that tunes, the run
  ends with these six events: the frontend is opened, the card is tuned, and the next
  things \<^verbatim>\<open>main\<close> does are to close the card and to return through \<^verbatim>\<open>mumudvb_close\<close>.
\<close>

theorem card_closed_right_after_tuning:
  "run_outcome (main sample_params (sample_env sample_lines) []) = Some Returned_close \<and>
   last_events 6 (final_state (main sample_params (sample_env sample_lines) [])) =
     [Open_fe False, Tune_it, Log MSG_INFO ''Card %d, tuner %d tuned'', Close_card_fd,
      Log MSG_INFO ''The pid will be written in %s'', Mumudvb_close]"
proof -
  from sample_run obtain s where
    m: "main sample_params (sample_env sample_lines) [] = Halt Returned_close s" and
    t: "trace s =
         [Print_info, Fopen Conf_display True, Log MSG_FLOOD ''==== Configuration file ===='',
          Log MSG_FLOOD ''%03d %s'', Log MSG_FLOOD ''%03d %s'', Log MSG_FLOOD ''%03d %s'',
          Log MSG_FLOOD ''%03d %s'', Log MSG_FLOOD ''%03d %s'',
          Log MSG_FLOOD ''============ done ==========='', Fclose Conf_display,
          Fopen Conf_read True, Log MSG_INFO ''New channel, current number %d'',
          Log MSG_WARN ''The buffer size MUST be >0, forced to 1 packet'',
          Log MSG_INFO ''Demuxing T2-MI stream on pid %d as input'',
          Fclose Conf_read, Free_conf_filename,
          Log MSG_WARN
            ''Warning : You set a DVR buffer size too low to accept T2-MI frames, I increase your dvr_buffer_size to 20 ...'',
          Log MSG_WARN
            ''Warning : You set a thread buffer size lower than your DVR buffer size, it's not possible to use such values. I increase your dvr_thread_buffer_size ...'',
          Expand_template ''card_dev_path'',
          Log MSG_INFO
            ''========== End of configuration, MuMuDVB version %s is starting =========='',
          Fopen Streamed_list True, Fclose Streamed_list,
          Fopen Not_streamed_list True, Fclose Not_streamed_list,
          Log MSG_INFO ''Streaming. Freq %f'',
          Install_handler 14, Install_handler 10, Install_handler 12, Install_handler 1,
          Alarm 300, Open_fe False, Tune_it,
          Log MSG_INFO ''Card %d, tuner %d tuned'', Close_card_fd,
          Log MSG_INFO ''The pid will be written in %s'', Mumudvb_close]"
    by blast
  show ?thesis unfolding m by (simp add: run_outcome_def final_state_def last_events_def t)
qed

text \<open>
  C1, amended: when the configuration has been read and leaves an output, the frontend
  opens, the card tunes (or a file stands for it) and the process id can be written
  when it has to be, \<^verbatim>\<open>main\<close> marks the card as tuned, closes the card and returns
  through \<^verbatim>\<open>mumudvb_close\<close>: the run ends with the notice that the card is tuned,
  \<^verbatim>\<open>close_card_fd\<close>, one more notice and \<^verbatim>\<open>mumudvb_close\<close>.
\<close>

theorem closes_after_tuning:
  assumes "prelude K E (initial_state K E) = Cont st1"
      and "configuration K E rs st1 = Cont st2"
      and "(ttl (blk st2) \<noteq> 0 \<and> multicast (blk st2) \<noteq> 0) \<or> unicast (blk st2) \<noteq> 0"
      and "0 < open_fe_ret E"
      and "read_file_path (blk st2) \<noteq> [] \<or> 0 \<le> tune_it_ret E"
      and "no_daemon E \<noteq> 0 \<or> fopen_ok E Pid_file"
  shows "\<exists>s. main K E rs = Halt Returned_close s \<and> card_tuned (blk s) = 1 \<and>
             last_events 4 s =
               [Log MSG_INFO ''Card %d, tuner %d tuned'', Close_card_fd,
                Log MSG_INFO ''The pid will be written in %s'', Mumudvb_close]"
proof -
  let ?st = "multicast_checks (templates K E (buffer_limits (option_defaults st2)))"
  let ?g = "signals E (list_files E ?st)"
  have m: "main K E rs = tuning K E ?g"
    unfolding main_startup [OF assms(1,2)] by (rule startup_sink [OF assms(3)])
  have "sinks (templates K E (buffer_limits (option_defaults st2))) = sinks st2"
    by (simp only: templates_sinks buffer_limits_sinks option_defaults_sinks)
  with multicast_checks_sinks [of "templates K E (buffer_limits (option_defaults st2))"]
  have "read_file_path (blk ?st) = read_file_path (blk st2)" by (simp add: sinks_def)
  with list_files_sinks [of E ?st] signals_sinks [of E "list_files E ?st"]
  have "read_file_path (blk ?g) = read_file_path (blk st2)" by (simp add: sinks_def)
  with assms(5) have "read_file_path (blk ?g) \<noteq> [] \<or> 0 \<le> tune_it_ret E" by simp
  from tuning_tuned [OF assms(4) this assms(6)] show ?thesis unfolding m .
qed

text \<open>The sample environment: multicast is on, the frontend opens, the card tunes.\<close>

theorem closes_after_tuning_witness:
  "\<exists>s. main sample_params plain_env [] = Halt Returned_close s \<and> card_tuned (blk s) = 1 \<and>
       last_events 4 s =
         [Log MSG_INFO ''Card %d, tuner %d tuned'', Close_card_fd,
          Log MSG_INFO ''The pid will be written in %s'', Mumudvb_close]"
proof -
  let ?st = "add_event Print_info (initial_state sample_params plain_env)"
  have b: "blk ?st = sample_blocks"
    by (simp add: add_event_def initial_state_def plain_env_def sample_env_def)
  have h3: "(ttl (blk ?st) \<noteq> 0 \<and> multicast (blk ?st) \<noteq> 0) \<or> unicast (blk ?st) \<noteq> 0"
    unfolding b by (simp add: sample_blocks_def)
  have h4: "0 < open_fe_ret plain_env" by (simp add: plain_env_def sample_env_def)
  have h5: "read_file_path (blk ?st) \<noteq> [] \<or> 0 \<le> tune_it_ret plain_env"
    by (simp add: plain_env_def sample_env_def)
  have h6: "no_daemon plain_env \<noteq> 0 \<or> fopen_ok plain_env Pid_file"
    by (simp add: plain_env_def sample_env_def)
  from closes_after_tuning [OF conjunct1 [OF plain_env_start] conjunct2 [OF plain_env_start]
      h3 h4 h5 h6]
  show ?thesis .
qed

end
